theory Spec2Isabelle
  imports Main
begin

section \<open>Values built by the script\<close>

text \<open>
  The CloudFormation template is assembled from Python dict and list literals and then
  serialised. A dict keeps its keys in insertion order, so it is an association list;
  \<open>d[k] = v\<close> replaces the value of a key that is present, in place, and appends a new key.
\<close>

datatype json = JString string | JInt int | JList "json list" | JObject "(string \<times> json) list"

type_synonym dict = "(string \<times> json) list"

fun setitem :: "string \<Rightarrow> json \<Rightarrow> dict \<Rightarrow> dict" where
  "setitem k v [] = [(k, v)]"
| "setitem k v ((k', v') # d) = (if k' = k then (k, v) # d else (k', v') # setitem k v d)"

text \<open>Reading a template: \<open>j[k]\<close> on a dict, and a path of keys.\<close>

fun getitem :: "string \<Rightarrow> json \<Rightarrow> json option" where
  "getitem k (JObject d) = map_of d k"
| "getitem k _ = None"

fun getpath :: "string list \<Rightarrow> json \<Rightarrow> json option" where
  "getpath [] j = Some j"
| "getpath (k # ks) j = (case getitem k j of None \<Rightarrow> None | Some j' \<Rightarrow> getpath ks j')"

text \<open>
  One entry of \<open>versions\<close> is unpacked as \<open>version, weight, clusters\<close>: the label, the
  declared weight and the cluster ids.
\<close>

type_synonym version = "string \<times> int \<times> string list"

section \<open>The world outside the script\<close>

text \<open>
  Exceptions are values. \<open>AlreadyExistsException\<close> is the one exception the script
  catches; \<open>ClientError\<close> stands for every other error of a boto3 client call,
  \<open>WaiterError\<close> for a waiter that gave up or saw a terminal failure, \<open>IndexError\<close> for
  \<open>[0]\<close> on an empty list and \<open>OSError\<close> for a file that cannot be written.
\<close>

datatype error =
    AlreadyExistsException
  | ClientError string
  | WaiterError string
  | IndexError
  | OSError string

type_synonym filter = "string \<times> string list"
type_synonym parameters = "(string \<times> string) list"
type_synonym waiter_config = "(string \<times> int) list"

text \<open>
  The library and remote operations the script calls, each with the region of the client
  it is called on as first argument where it has one. A response is reduced to the fields
  the script reads: \<open>describe_instances\<close> gives the instance ids of each reservation,
  \<open>describe_stacks\<close> the \<open>StackId\<close> of each entry of \<open>Stacks\<close>,
  \<open>describe_stack_resource\<close> the \<open>PhysicalResourceId\<close>, \<open>describe_load_balancers\<close> the
  \<open>DNSName\<close> of each entry of \<open>LoadBalancers\<close>. \<open>waiter_wait\<close> takes the region, the
  waiter's name, \<open>StackName\<close> and \<open>WaiterConfig\<close>.
\<close>

record env =
  json_dumps :: "json \<Rightarrow> string"
  write_file :: "string \<Rightarrow> string \<Rightarrow> error + unit"
  describe_instances :: "string \<Rightarrow> filter list \<Rightarrow> error + string list list"
  create_stack :: "string \<Rightarrow> string \<Rightarrow> string \<Rightarrow> parameters \<Rightarrow> error + unit"
  update_stack :: "string \<Rightarrow> string \<Rightarrow> string \<Rightarrow> parameters \<Rightarrow> error + unit"
  describe_stacks :: "string \<Rightarrow> string \<Rightarrow> error + string list"
  waiter_wait :: "string \<Rightarrow> string \<Rightarrow> string \<Rightarrow> waiter_config \<Rightarrow> error + unit"
  describe_stack_resource :: "string \<Rightarrow> string \<Rightarrow> string \<Rightarrow> error + string"
  describe_load_balancers :: "string \<Rightarrow> string list \<Rightarrow> error + string list"
  delete_stack :: "string \<Rightarrow> string \<Rightarrow> error + unit"

text \<open>
  What a run leaves behind: the calls it issued, in order and with their arguments, and
  the lines it printed. A call on \<open>boto3.client(service, region)\<close> is recorded with the
  service and the region of its client. A printed line is the pieces of its f-string:
  text, an integer, or the \<open>repr\<close> of a list of strings.
\<close>

datatype request =
    DescribeInstances "filter list"
  | CreateStack string string parameters
  | UpdateStack string string parameters
  | DescribeStacks string
  | WaiterWait string string waiter_config
  | DescribeStackResource string string
  | DescribeLoadBalancers "string list"
  | DeleteStack string

datatype call =
    WriteFile string string
  | Client string string request

datatype frag = Text string | Num nat | Repr "string list"

type_synonym line = "frag list"

record state =
  calls :: "call list"
  stdout :: "line list"

definition emit :: "call \<Rightarrow> state \<Rightarrow> state" where
  "emit c st = st\<lparr>calls := calls st @ [c]\<rparr>"

definition print :: "line \<Rightarrow> state \<Rightarrow> state" where
  "print l st = st\<lparr>stdout := stdout st @ [l]\<rparr>"

section \<open>find_instances\<close>

definition tags :: "string list \<Rightarrow> filter list" where
  "tags clusters = [(''tag:anyscale-session-id'', clusters),
                    (''instance-state-name'', [''running''])]"

definition find_instances :: "env \<Rightarrow> string \<Rightarrow> string list \<Rightarrow> state \<Rightarrow> (error + string list) \<times> state" where
  "find_instances e region clusters st =
     (let st1 = print [Text ''Searching for all instances with these cluster ids: '',
                       Repr clusters, Text '' ...''] st;
          st2 = emit (Client ''ec2'' region (DescribeInstances (tags clusters))) st1
      in case describe_instances e region (tags clusters) of
           Inl err \<Rightarrow> (Inl err, st2)
         | Inr reservations \<Rightarrow>
             (let instance_ids = concat reservations
              in (Inr instance_ids,
                  print [Text ''Found '', Num (length instance_ids),
                         Text '' instances with these cluster ids: '', Repr clusters,
                         Text ''.\<newline>''] st2)))"

text \<open>
  The value \<open>find_instances\<close> returns, as a function of the region and the cluster ids:
  the instance ids of all reservations of the response, in order, or the client's error.
\<close>

definition discover :: "env \<Rightarrow> string \<Rightarrow> string list \<Rightarrow> error + string list" where
  "discover e region clusters =
     (case describe_instances e region (tags clusters) of
        Inl err \<Rightarrow> Inl err
      | Inr reservations \<Rightarrow> Inr (concat reservations))"

section \<open>plan\<close>

definition params :: json where
  "params = JObject
     [(''SecurityGroups'', JObject
         [(''Description'', JString ''List of security groups''),
          (''Type'', JString ''CommaDelimitedList'')]),
      (''Subnets'', JObject
         [(''Description'', JString ''List of subnets that your instances reside in''),
          (''Type'', JString ''CommaDelimitedList'')]),
      (''VPCID'', JObject
         [(''Description'', JString ''VPC ID of all of the instances''),
          (''Type'', JString ''String'')])]"

definition load_balancer :: "string \<Rightarrow> json" where
  "load_balancer stack_name = JObject
     [(''Type'', JString ''AWS::ElasticLoadBalancingV2::LoadBalancer''),
      (''Properties'', JObject
         [(''IpAddressType'', JString ''ipv4''),
          (''Name'', JString (''ALB'' @ stack_name)),
          (''SecurityGroups'', JObject [(''Ref'', JString ''SecurityGroups'')]),
          (''Subnets'', JObject [(''Ref'', JString ''Subnets'')]),
          (''Type'', JString ''application'')])]"

text \<open>The first loop: one entry of the default routing rule per element of \<open>versions\<close>.\<close>

fun target_groups :: "string \<Rightarrow> version list \<Rightarrow> json list" where
  "target_groups stack_name [] = []"
| "target_groups stack_name ((version, weight, _) # versions) =
     JObject [(''TargetGroupArn'', JObject [(''Ref'', JString (''TG'' @ version @ stack_name))]),
              (''Weight'', JInt weight)]
     # target_groups stack_name versions"

definition listener :: "string \<Rightarrow> json list \<Rightarrow> json" where
  "listener stack_name tgs = JObject
     [(''Type'', JString ''AWS::ElasticLoadBalancingV2::Listener''),
      (''Properties'', JObject
         [(''LoadBalancerArn'', JObject [(''Ref'', JString (''ALB'' @ stack_name))]),
          (''Port'', JInt 80),
          (''Protocol'', JString ''HTTP''),
          (''DefaultActions'', JList
             [JObject [(''Type'', JString ''forward''),
                       (''ForwardConfig'', JObject [(''TargetGroups'', JList tgs)])]])])]"

definition target_group :: "string \<Rightarrow> string \<Rightarrow> json list \<Rightarrow> json" where
  "target_group version stack_name targets = JObject
     [(''Type'', JString ''AWS::ElasticLoadBalancingV2::TargetGroup''),
      (''Properties'', JObject
         [(''HealthCheckIntervalSeconds'', JInt 5),
          (''HealthCheckTimeoutSeconds'', JInt 4),
          (''HealthyThresholdCount'', JInt 2),
          (''HealthCheckPath'', JString ''/healthcheck''),
          (''Name'', JString (''tg-'' @ version @ ''-'' @ stack_name)),
          (''Port'', JInt 8000),
          (''Protocol'', JString ''HTTP''),
          (''ProtocolVersion'', JString ''HTTP1''),
          (''VpcId'', JObject [(''Ref'', JString ''VPCID'')]),
          (''Targets'', JList targets)])]"

definition target :: "string \<Rightarrow> json" where
  "target instance = JObject [(''Id'', JString instance), (''Port'', JInt 8000)]"

text \<open>
  The second loop: for each element of \<open>versions\<close>, discover its instances and store its
  target group under \<open>TG<version><stack_name>\<close>. An exception of \<open>find_instances\<close> ends the
  loop and the function.
\<close>

fun plan_target_groups ::
  "env \<Rightarrow> string \<Rightarrow> string \<Rightarrow> version list \<Rightarrow> dict \<Rightarrow> state \<Rightarrow> (error + dict) \<times> state" where
  "plan_target_groups e region stack_name [] resources st = (Inr resources, st)"
| "plan_target_groups e region stack_name ((version, weight, clusters) # versions) resources st =
     (case find_instances e region clusters st of
        (Inl err, st') \<Rightarrow> (Inl err, st')
      | (Inr instances, st') \<Rightarrow>
          plan_target_groups e region stack_name versions
            (setitem (''TG'' @ version @ stack_name)
               (target_group version stack_name (map target instances)) resources) st')"

text \<open>
  The template as a value, before \<open>json.dumps\<close>: lines 85 to 152 of the source.
\<close>

definition plan_resources ::
  "env \<Rightarrow> string \<Rightarrow> string \<Rightarrow> version list \<Rightarrow> state \<Rightarrow> (error + dict) \<times> state" where
  "plan_resources e region stack_name versions st =
     (let st0 = print [Text ''Generating the cloudformation template ...\<newline>''] st;
          resources0 = setitem (''ALB'' @ stack_name) (load_balancer stack_name) [];
          resources1 = setitem (''ALBListener'' @ stack_name)
                         (listener stack_name (target_groups stack_name versions)) resources0
      in plan_target_groups e region stack_name versions resources1 st0)"

definition cf_template :: "dict \<Rightarrow> json" where
  "cf_template resources = JObject [(''Parameters'', params), (''Resources'', JObject resources)]"

definition plan ::
  "env \<Rightarrow> string \<Rightarrow> string \<Rightarrow> version list \<Rightarrow> state \<Rightarrow> (error + string) \<times> state" where
  "plan e region stack_name versions st =
     (case plan_resources e region stack_name versions st of
        (Inl err, st1) \<Rightarrow> (Inl err, st1)
      | (Inr resources, st1) \<Rightarrow>
          (let cf_template_json = json_dumps e (cf_template resources);
               st2 = emit (WriteFile ''cf_template.json'' cf_template_json) st1
           in case write_file e ''cf_template.json'' cf_template_json of
                Inl err \<Rightarrow> (Inl err, st2)
              | Inr _ \<Rightarrow>
                  (Inr cf_template_json,
                   print [Text ''Generated the cloudformation template. A copy has been saved in cf_template.json.\<newline>''] st2)))"

section \<open>apply\<close>

text \<open>
  Lines 185 to 201, which both branches of the \<open>try\<close> statement reach with their waiter
  and its configuration. The function has no \<open>return\<close> statement: its value is Python's
  \<open>None\<close>, here \<open>None\<close> of \<open>string option\<close>.
\<close>

definition apply_wait ::
  "env \<Rightarrow> string \<Rightarrow> string \<Rightarrow> string \<Rightarrow> waiter_config \<Rightarrow> state \<Rightarrow> (error + string option) \<times> state" where
  "apply_wait e region stack_name waiter waiter_conf st =
     (let st1 = emit (Client ''cloudformation'' region (DescribeStacks stack_name)) st
      in case describe_stacks e region stack_name of
           Inl err \<Rightarrow> (Inl err, st1)
         | Inr [] \<Rightarrow> (Inl IndexError, st1)
         | Inr (stack_id # _) \<Rightarrow>
             (let stack_url = ''https://'' @ region @ ''.console.aws.amazon.com/cloudformation/home?region=''
                                @ region @ ''#stacks/stackinfo?stackId='' @ stack_id;
                  st2 = print [Text ''View your stack at '', Text stack_url, Text ''.\<newline>''] st1;
                  st3 = emit (Client ''cloudformation'' region (WaiterWait waiter stack_name waiter_conf)) st2
              in case waiter_wait e region waiter stack_name waiter_conf of
                   Inl err \<Rightarrow> (Inl err, st3)
                 | Inr _ \<Rightarrow>
                     (let st4 = print [Text ''Finished deploying the cloudformation template.\<newline>''] st3;
                          st5 = emit (Client ''cloudformation'' region
                                       (DescribeStackResource stack_name (''ALB'' @ stack_name))) st4
                      in case describe_stack_resource e region stack_name (''ALB'' @ stack_name) of
                           Inl err \<Rightarrow> (Inl err, st5)
                         | Inr physical_resource_id \<Rightarrow>
                             (let st6 = emit (Client ''elbv2'' ''us-west-2''
                                               (DescribeLoadBalancers [physical_resource_id])) st5
                              in case describe_load_balancers e ''us-west-2'' [physical_resource_id] of
                                   Inl err \<Rightarrow> (Inl err, st6)
                                 | Inr [] \<Rightarrow> (Inl IndexError, st6)
                                 | Inr (ALB_dns_name # _) \<Rightarrow>
                                     (Inr None,
                                      print [Text ''The DNS name of your ALB is '',
                                             Text ALB_dns_name, Text ''.''] st6)))))"

definition apply_template ::
  "env \<Rightarrow> string \<Rightarrow> string \<Rightarrow> string \<Rightarrow> parameters \<Rightarrow> state \<Rightarrow> (error + string option) \<times> state" where
  "apply_template e region stack_name cf_template_json parameters st =
     (let st0 = print [Text ''Applying the cloudformation template ...\<newline>''] st;
          st1 = emit (Client ''cloudformation'' region
                       (CreateStack stack_name cf_template_json parameters)) st0
      in case create_stack e region stack_name cf_template_json parameters of
           Inr _ \<Rightarrow> apply_wait e region stack_name ''stack_create_complete'' [] st1
         | Inl AlreadyExistsException \<Rightarrow>
             (let st2 = emit (Client ''cloudformation'' region
                              (UpdateStack stack_name cf_template_json parameters)) st1
              in case update_stack e region stack_name cf_template_json parameters of
                   Inl err \<Rightarrow> (Inl err, st2)
                 | Inr _ \<Rightarrow> apply_wait e region stack_name ''stack_update_complete'' [(''Delay'', 2)] st2)
         | Inl err \<Rightarrow> (Inl err, st1))"

section \<open>delete\<close>

definition delete :: "env \<Rightarrow> string \<Rightarrow> string \<Rightarrow> state \<Rightarrow> (error + unit) \<times> state" where
  "delete e region stack_name st =
     (let st0 = print [Text ''Deleting cloudformation stack '', Text stack_name, Text '' ...''] st;
          st1 = emit (Client ''cloudformation'' region (DeleteStack stack_name)) st0
      in case delete_stack e region stack_name of
           Inl err \<Rightarrow> (Inl err, st1)
         | Inr _ \<Rightarrow>
             (let st2 = emit (Client ''cloudformation'' region
                              (WaiterWait ''stack_delete_complete'' stack_name [(''Delay'', 1)])) st1
              in case waiter_wait e region ''stack_delete_complete'' stack_name [(''Delay'', 1)] of
                   Inl err \<Rightarrow> (Inl err, st2)
                 | Inr _ \<Rightarrow>
                     (Inr (), print [Text ''Deleted cloudformation stack '', Text stack_name, Text ''.''] st2)))"

section \<open>Waiter configuration\<close>

text \<open>
  How a waiter reads \<open>WaiterConfig\<close> is the library's business, not the script's: the
  delay between two polls is the entry \<open>Delay\<close> of the configuration when there is one
  and the waiter's own default otherwise. The default is a parameter here.
\<close>

definition delay :: "int \<Rightarrow> waiter_config \<Rightarrow> int" where
  "delay default_delay waiter_conf =
     (case map_of waiter_conf ''Delay'' of Some d \<Rightarrow> d | None \<Rightarrow> default_delay)"

text \<open>
  Whether a wait succeeds is the library's business too. A waiter polls the control plane
  and tries its acceptors, in order, on each answer; here an answer is an error or the
  \<open>StackStatus\<close> of each entry of \<open>Stacks\<close>. The first acceptor that matches decides:
  success ends the wait, failure raises. When none matches, an error answer raises, and
  any other answer leads to the next poll until the attempts are used up. The acceptors of
  \<open>stack_delete_complete\<close> start with two success states, every stack being
  \<open>DELETE_COMPLETE\<close> and the error \<open>ValidationError\<close> with which the control plane says
  that the stack does not exist; the statuses that are failure states are a parameter.
\<close>

datatype matcher = ErrorCode string | PathAll string | PathAny string

datatype waiter_state = Success | Failure

type_synonym acceptor = "matcher \<times> waiter_state"

type_synonym response = "error + string list"

fun matches :: "matcher \<Rightarrow> response \<Rightarrow> bool" where
  "matches (ErrorCode code) (Inl (ClientError c)) = (c = code)"
| "matches (PathAll expected) (Inr statuses) = (statuses \<noteq> [] \<and> list_all (\<lambda>s. s = expected) statuses)"
| "matches (PathAny expected) (Inr statuses) = (expected \<in> set statuses)"
| "matches _ _ = False"

fun first_match :: "acceptor list \<Rightarrow> response \<Rightarrow> waiter_state option" where
  "first_match [] r = None"
| "first_match ((m, s) # acceptors) r = (if matches m r then Some s else first_match acceptors r)"

fun waiter_loop :: "acceptor list \<Rightarrow> nat \<Rightarrow> (nat \<Rightarrow> response) \<Rightarrow> nat \<Rightarrow> error + unit" where
  "waiter_loop acceptors attempts_left responses num_attempts =
     (case first_match acceptors (responses num_attempts) of
        Some Success \<Rightarrow> Inr ()
      | Some Failure \<Rightarrow> Inl (WaiterError ''Waiter encountered a terminal failure state'')
      | None \<Rightarrow>
          (case responses num_attempts of
             Inl err \<Rightarrow> Inl (WaiterError ''An error occurred'')
           | Inr statuses \<Rightarrow>
               (case attempts_left of
                  0 \<Rightarrow> Inl (WaiterError ''Max attempts exceeded'')
                | Suc n \<Rightarrow> waiter_loop acceptors n responses (Suc num_attempts))))"

definition stack_delete_complete :: "string list \<Rightarrow> acceptor list" where
  "stack_delete_complete failures =
     (PathAll ''DELETE_COMPLETE'', Success) # (ErrorCode ''ValidationError'', Success) #
     map (\<lambda>status. (PathAny status, Failure)) failures"

section \<open>Reading the template\<close>

text \<open>
  An entry of the routing rule read back as the pair of the target group it refers to and
  its weight, and the constants a target group and its targets carry.
\<close>

definition pool_weight :: "json \<Rightarrow> (string \<times> int) option" where
  "pool_weight j =
     (case (getpath [''TargetGroupArn'', ''Ref''] j, getitem ''Weight'' j) of
        (Some (JString ref), Some (JInt weight)) \<Rightarrow> Some (ref, weight)
      | _ \<Rightarrow> None)"


section \<open>A test double\<close>

text \<open>
  An environment in which every call succeeds: cluster \<open>c1\<close> has two running instances
  in two reservations, cluster \<open>c2\<close> one, every other cluster none.
\<close>

definition demo_env :: env where
  "demo_env = \<lparr>
     json_dumps = (\<lambda>j. ''{}''),
     write_file = (\<lambda>path content. Inr ()),
     describe_instances = (\<lambda>region filters.
        if filters = tags [''c1''] then Inr [[''i-aaa''], [''i-bbb'']]
        else if filters = tags [''c2''] then Inr [[''i-ccc'']]
        else Inr []),
     create_stack = (\<lambda>region stack_name body ps. Inr ()),
     update_stack = (\<lambda>region stack_name body ps. Inr ()),
     describe_stacks = (\<lambda>region stack_name. Inr [''arn:stack/'' @ stack_name]),
     waiter_wait = (\<lambda>region waiter stack_name conf. Inr ()),
     describe_stack_resource = (\<lambda>region stack_name logical. Inr (''arn:alb/'' @ logical)),
     describe_load_balancers = (\<lambda>region arns. Inr (map (\<lambda>a. a @ ''.elb.amazonaws.com'') arns)),
     delete_stack = (\<lambda>region stack_name. Inr ())\<rparr>"

definition init :: state where
  "init = \<lparr>calls = [], stdout = []\<rparr>"

definition demo_versions :: "version list" where
  "demo_versions = [(''v1'', 90, [''c1'']), (''v2'', 10, [''c2''])]"

definition dup_versions :: "version list" where
  "dup_versions = [(''v1'', 90, [''c1'']), (''v1'', 10, [''c2''])]"

definition empty_versions :: "version list" where
  "empty_versions = [(''v1'', 90, [''c1'']), (''v3'', 10, [''c3''])]"

text \<open>
  A second environment: it knows a cluster \<open>c9\<close> that the first does not, and every
  stack already exists in it.
\<close>

definition other_env :: env where
  "other_env = demo_env\<lparr>
     describe_instances := (\<lambda>region filters.
        if filters = tags [''c9''] then Inr [[''i-zzz'']]
        else describe_instances demo_env region filters),
     create_stack := (\<lambda>region stack_name body ps. Inl AlreadyExistsException)\<rparr>"

text \<open>A third environment, in which deleting a stack is refused.\<close>

definition absent_env :: env where
  "absent_env = demo_env\<lparr>
     delete_stack := (\<lambda>region stack_name. Inl (ClientError ''ValidationError''))\<rparr>"

text \<open>
  A fourth environment, in which the load balancer query is refused, and a fifth, in
  which no stack exists: the deletion is accepted all the same, every poll of the waiter
  is answered with \<open>ValidationError\<close>, and the waiter is the library's loop over these
  answers with 120 attempts.
\<close>

definition lookup_fails_env :: env where
  "lookup_fails_env = demo_env\<lparr>
     describe_load_balancers := (\<lambda>region arns. Inl (ClientError ''LoadBalancerNotFound''))\<rparr>"

definition gone_responses :: "nat \<Rightarrow> response" where
  "gone_responses i = Inl (ClientError ''ValidationError'')"

definition gone_env :: env where
  "gone_env = demo_env\<lparr>
     describe_stacks := (\<lambda>region stack_name. Inl (ClientError ''ValidationError'')),
     waiter_wait := (\<lambda>region waiter stack_name conf.
        waiter_loop (stack_delete_complete [''DELETE_FAILED'']) 119 gone_responses 0)\<rparr>"

text \<open>A sequence of versions in which a later entry repeats the label of an earlier one
  whose cluster has no instance.\<close>

definition shadow_versions :: "version list" where
  "shadow_versions = [(''v1'', 90, [''c3'']), (''v1'', 10, [''c1''])]"

section \<open>Dicts\<close>

lemma map_of_setitem: "map_of (setitem k v d) k' = (if k' = k then Some v else map_of d k')"
  by (induction d) auto

lemma keys_setitem:
  "map fst (setitem k v d) = (if k \<in> set (map fst d) then map fst d else map fst d @ [k])"
  by (induction d) force+


section \<open>Properties of find_instances and plan\<close>

lemma find_instances_result: "fst (find_instances e region clusters st) = discover e region clusters"
  by (simp add: find_instances_def discover_def Let_def split: sum.splits)

lemma find_instances_calls:
  "calls (snd (find_instances e region clusters st)) = calls st @ [Client ''ec2'' region (DescribeInstances (tags clusters))]"
  by (simp add: find_instances_def Let_def emit_def print_def split: sum.splits)

lemma find_instances_Inr:
  assumes "find_instances e region clusters st = (Inr ids, st')"
  shows "discover e region clusters = Inr ids"
    and "calls st' = calls st @ [Client ''ec2'' region (DescribeInstances (tags clusters))]"
  using assms find_instances_result [of e region clusters st]
    find_instances_calls [of e region clusters st] by simp_all

lemma plan_target_groups_keys:
  assumes "plan_target_groups e region stack_name versions resources st = (Inr resources', st')"
    and "distinct (map fst versions)"
    and "\<forall>v \<in> set (map fst versions). ''TG'' @ v @ stack_name \<notin> set (map fst resources)"
  shows "map fst resources' =
           map fst resources @ map (\<lambda>version. ''TG'' @ version @ stack_name) (map fst versions)"
  using assms
proof (induction versions arbitrary: resources st)
  case Nil
  then show ?case by simp
next
  case (Cons x versions)
  obtain version weight clusters where x: "x = (version, weight, clusters)" by (cases x)
  from Cons.prems(1) x obtain ids st1 where
    fi: "find_instances e region clusters st = (Inr ids, st1)" and
    rec: "plan_target_groups e region stack_name versions
            (setitem (''TG'' @ version @ stack_name)
               (target_group version stack_name (map target ids)) resources) st1 = (Inr resources', st')"
    by (auto split: prod.splits sum.splits)
  have fresh: "''TG'' @ version @ stack_name \<notin> set (map fst resources)"
    using Cons.prems(3) x by simp
  have keys1: "map fst (setitem (''TG'' @ version @ stack_name)
               (target_group version stack_name (map target ids)) resources) = map fst resources @ [''TG'' @ version @ stack_name]"
    using fresh by (simp add: keys_setitem)
  have d: "distinct (map fst versions)" and nin: "version \<notin> set (map fst versions)"
    using Cons.prems(2) x by simp_all
  have "\<forall>v \<in> set (map fst versions). ''TG'' @ v @ stack_name \<notin> set (map fst (setitem (''TG'' @ version @ stack_name)
               (target_group version stack_name (map target ids)) resources))"
    unfolding keys1 using Cons.prems(3) nin by auto
  from Cons.IH [OF rec d this]
  have "map fst resources' = (map fst resources @ [''TG'' @ version @ stack_name]) @
          map (\<lambda>version. ''TG'' @ version @ stack_name) (map fst versions)"
    unfolding keys1 .
  then show ?case using x by simp
qed

lemma plan_target_groups_other:
  assumes "plan_target_groups e region stack_name versions resources st = (Inr resources', st')"
    and "\<forall>v \<in> set (map fst versions). k \<noteq> ''TG'' @ v @ stack_name"
  shows "map_of resources' k = map_of resources k"
  using assms
proof (induction versions arbitrary: resources st)
  case Nil
  then show ?case by simp
next
  case (Cons x versions)
  obtain version weight clusters where x: "x = (version, weight, clusters)" by (cases x)
  from Cons.prems(1) x obtain ids st1 where
    rec: "plan_target_groups e region stack_name versions
            (setitem (''TG'' @ version @ stack_name)
               (target_group version stack_name (map target ids)) resources) st1 = (Inr resources', st')"
    by (auto split: prod.splits sum.splits)
  show ?case using Cons.IH [OF rec] Cons.prems(2) x by (simp add: map_of_setitem)
qed

lemma plan_target_groups_pool:
  assumes "plan_target_groups e region stack_name versions resources st = (Inr resources', st')"
    and "distinct (map fst versions)"
    and "(version, weight, clusters) \<in> set versions"
  shows "\<exists>ids. discover e region clusters = Inr ids \<and>
           map_of resources' (''TG'' @ version @ stack_name) =
             Some (target_group version stack_name (map target ids))"
  using assms
proof (induction versions arbitrary: resources st)
  case Nil
  then show ?case by simp
next
  case (Cons x versions)
  obtain version' weight' clusters' where x: "x = (version', weight', clusters')" by (cases x)
  from Cons.prems(1) x obtain ids st1 where
    fi: "find_instances e region clusters' st = (Inr ids, st1)" and
    rec: "plan_target_groups e region stack_name versions
            (setitem (''TG'' @ version' @ stack_name)
               (target_group version' stack_name (map target ids)) resources) st1 = (Inr resources', st')"
    by (auto split: prod.splits sum.splits)
  show ?case
  proof (cases "(version, weight, clusters) \<in> set versions")
    case True
    then show ?thesis using Cons.IH [OF rec] Cons.prems(2) by simp
  next
    case False
    then have eq: "version' = version" "weight' = weight" "clusters' = clusters"
      using Cons.prems(3) x by auto
    have "version \<notin> set (map fst versions)" using Cons.prems(2) x eq by simp
    then have "\<forall>v \<in> set (map fst versions). ''TG'' @ version @ stack_name \<noteq> ''TG'' @ v @ stack_name"
      by auto
    from plan_target_groups_other [OF rec this]
    have "map_of resources' (''TG'' @ version @ stack_name) =
            Some (target_group version stack_name (map target ids))"
      using eq by (simp add: map_of_setitem)
    then show ?thesis using find_instances_Inr(1) [OF fi] eq by simp
  qed
qed

lemma plan_target_groups_succeeds:
  assumes "\<forall>(version, weight, clusters) \<in> set versions. \<exists>ids. discover e region clusters = Inr ids"
  shows "\<exists>resources' st'. plan_target_groups e region stack_name versions resources st = (Inr resources', st')"
  using assms
proof (induction versions arbitrary: resources st)
  case Nil
  then show ?case by simp
next
  case (Cons x versions)
  obtain version weight clusters where x: "x = (version, weight, clusters)" by (cases x)
  from Cons.prems x obtain ids where d: "discover e region clusters = Inr ids" by auto
  obtain r st1 where fi: "find_instances e region clusters st = (r, st1)" by (cases "find_instances e region clusters st")
  with find_instances_result [of e region clusters st] d have r: "r = Inr ids" by simp
  have "\<forall>(version, weight, clusters) \<in> set versions. \<exists>ids. discover e region clusters = Inr ids"
    using Cons.prems by simp
  from Cons.IH [OF this] show ?case using x fi r by simp
qed

lemma plan_target_groups_calls:
  assumes "plan_target_groups e region stack_name versions resources st = (Inr resources', st')"
  shows "calls st' = calls st @ map (\<lambda>(version, weight, clusters). Client ''ec2'' region (DescribeInstances (tags clusters))) versions"
  using assms
proof (induction versions arbitrary: resources st)
  case Nil
  then show ?case by simp
next
  case (Cons x versions)
  obtain version weight clusters where x: "x = (version, weight, clusters)" by (cases x)
  from Cons.prems(1) x obtain ids st1 where
    fi: "find_instances e region clusters st = (Inr ids, st1)" and
    rec: "plan_target_groups e region stack_name versions
            (setitem (''TG'' @ version @ stack_name)
               (target_group version stack_name (map target ids)) resources) st1 = (Inr resources', st')"
    by (auto split: prod.splits sum.splits)
  show ?case using Cons.IH [OF rec] find_instances_Inr(2) [OF fi] x by simp
qed

lemma plan_resources_eq:
  "plan_resources e region stack_name versions st =
     plan_target_groups e region stack_name versions
       [(''ALB'' @ stack_name, load_balancer stack_name),
        (''ALBListener'' @ stack_name, listener stack_name (target_groups stack_name versions))]
       (print [Text ''Generating the cloudformation template ...\<newline>''] st)"
  by (simp add: plan_resources_def Let_def)

lemma pool_weight_target_groups:
  "map pool_weight (target_groups stack_name versions) =
     map (\<lambda>(version, weight, clusters). Some (''TG'' @ version @ stack_name, weight)) versions"
  by (induction versions) (auto simp: pool_weight_def)

lemma plan_succeeds:
  assumes "\<forall>(version, weight, clusters) \<in> set versions. \<exists>ids. discover e region clusters = Inr ids"
    and "\<forall>content. write_file e ''cf_template.json'' content = Inr ()"
  shows "\<exists>resources st1.
           plan_resources e region stack_name versions st = (Inr resources, st1) \<and>
           plan e region stack_name versions st =
             (Inr (json_dumps e (cf_template resources)),
              print [Text ''Generated the cloudformation template. A copy has been saved in cf_template.json.\<newline>'']
                (emit (WriteFile ''cf_template.json'' (json_dumps e (cf_template resources))) st1))"
proof -
  from plan_target_groups_succeeds [OF assms(1)]
  obtain resources st1 where
    "plan_resources e region stack_name versions st = (Inr resources, st1)"
    unfolding plan_resources_eq by blast
  then show ?thesis using assms(2) by (simp add: plan_def Let_def)
qed

lemma plan_resources_listener:
  assumes "plan_resources e region stack_name versions st = (Inr resources, st1)"
  shows "map_of resources (''ALBListener'' @ stack_name) =
           Some (listener stack_name (target_groups stack_name versions))"
proof -
  have "\<forall>v \<in> set (map fst versions). ''ALBListener'' @ stack_name \<noteq> ''TG'' @ v @ stack_name"
    by simp
  from plan_target_groups_other [OF assms [unfolded plan_resources_eq] this]
  show ?thesis by simp
qed

lemma plan_resources_keys:
  assumes "plan_resources e region stack_name versions st = (Inr resources, st1)"
    and "distinct (map fst versions)"
  shows "map fst resources =
           (''ALB'' @ stack_name) # (''ALBListener'' @ stack_name) #
             map (\<lambda>version. ''TG'' @ version @ stack_name) (map fst versions)"
proof -
  have "\<forall>v \<in> set (map fst versions). ''TG'' @ v @ stack_name \<notin>
          set (map fst [(''ALB'' @ stack_name, load_balancer stack_name),
        (''ALBListener'' @ stack_name, listener stack_name (target_groups stack_name versions))])"
    by simp
  from plan_target_groups_keys [OF assms(1) [unfolded plan_resources_eq] assms(2) this]
  show ?thesis by simp
qed

lemma distinct_keys:
  assumes "distinct labels"
  shows "distinct ((''ALB'' @ stack_name) # (''ALBListener'' @ stack_name) #
             map (\<lambda>version. ''TG'' @ version @ stack_name) labels)"
  using assms by (auto simp: distinct_map inj_on_def)

lemma plan_Inr:
  assumes "plan e region stack_name versions st = (Inr cf_template_json, st')"
  shows "\<exists>resources st1.
           plan_resources e region stack_name versions st = (Inr resources, st1) \<and>
           cf_template_json = json_dumps e (cf_template resources) \<and>
           write_file e ''cf_template.json'' cf_template_json = Inr () \<and>
           calls st' = calls st1 @ [WriteFile ''cf_template.json'' cf_template_json]"
  using assms
  by (auto simp: plan_def Let_def emit_def print_def split: prod.splits sum.splits)

lemma target_group_reads:
  "getitem ''Type'' (target_group version stack_name targets) =
     Some (JString ''AWS::ElasticLoadBalancingV2::TargetGroup'')"
  "getpath [''Properties'', ''Targets''] (target_group version stack_name targets) = Some (JList targets)"
  "getpath [''Properties'', ''Name''] (target_group version stack_name targets) =
     Some (JString (''tg-'' @ version @ ''-'' @ stack_name))"
  by (simp_all add: target_group_def)

lemma cf_template_resources:
  "getitem ''Resources'' (cf_template resources) = Some (JObject resources)"
  by (simp add: cf_template_def)

lemma target_group_targets:
  "getpath [''Properties'', ''Targets''] (target_group version stack_name (map target ids)) =
     Some (JList (map (\<lambda>instance. JObject [(''Id'', JString instance), (''Port'', JInt 8000)]) ids))"
  by (simp add: target_group_def target_def)

lemma listener_reads:
  "getitem ''Type'' (listener stack_name tgs) = Some (JString ''AWS::ElasticLoadBalancingV2::Listener'')"
  "getpath [''Properties'', ''LoadBalancerArn'', ''Ref''] (listener stack_name tgs) =
     Some (JString (''ALB'' @ stack_name))"
  "getpath [''Properties'', ''DefaultActions''] (listener stack_name tgs) =
     Some (JList [JObject [(''Type'', JString ''forward''),
                           (''ForwardConfig'', JObject [(''TargetGroups'', JList tgs)])]])"
  "getpath [''Properties'', ''Port''] (listener stack_name tgs) = Some (JInt 80)"
  "getpath [''Properties'', ''Protocol''] (listener stack_name tgs) = Some (JString ''HTTP'')"
  by (simp_all add: listener_def)

text \<open>
  C1. When the labels of \<open>versions\<close> are pairwise different, every discovery succeeds and
  the template file can be written, \<open>plan\<close> returns the serialised template whose
  \<open>Resources\<close> are the load balancer, the listener and then exactly one target group per
  element of \<open>versions\<close>, in input order and under pairwise different keys. The resource
  under a version's key has the type of a target group and that version's name, and its
  targets are the instances discovered for that version's clusters. The listener refers
  to the load balancer, and the entries of its routing rule, read as pairs of a target
  group reference and a weight, are the pairs of each version's target group key and its
  declared weight, in input order.
\<close>

theorem plan_pools_and_weights:
  assumes "distinct (map fst versions)"
    and "\<forall>(version, weight, clusters) \<in> set versions. \<exists>ids. discover e region clusters = Inr ids"
    and "\<forall>content. write_file e ''cf_template.json'' content = Inr ()"
  shows "\<exists>resources st1 st' lst action tgs.
           plan_resources e region stack_name versions st = (Inr resources, st1) \<and>
           plan e region stack_name versions st = (Inr (json_dumps e (cf_template resources)), st') \<and>
           getitem ''Resources'' (cf_template resources) = Some (JObject resources) \<and>
           map fst resources =
             (''ALB'' @ stack_name) # (''ALBListener'' @ stack_name) #
               map (\<lambda>version. ''TG'' @ version @ stack_name) (map fst versions) \<and>
           distinct (map fst resources) \<and>
           (\<forall>(version, weight, clusters) \<in> set versions.
              \<exists>ids pool. discover e region clusters = Inr ids \<and>
                map_of resources (''TG'' @ version @ stack_name) = Some pool \<and>
                getitem ''Type'' pool = Some (JString ''AWS::ElasticLoadBalancingV2::TargetGroup'') \<and>
                getpath [''Properties'', ''Name''] pool =
                  Some (JString (''tg-'' @ version @ ''-'' @ stack_name)) \<and>
                getpath [''Properties'', ''Targets''] pool =
                  Some (JList (map (\<lambda>instance. JObject [(''Id'', JString instance), (''Port'', JInt 8000)]) ids))) \<and>
           map_of resources (''ALBListener'' @ stack_name) = Some lst \<and>
           getitem ''Type'' lst = Some (JString ''AWS::ElasticLoadBalancingV2::Listener'') \<and>
           getpath [''Properties'', ''LoadBalancerArn'', ''Ref''] lst = Some (JString (''ALB'' @ stack_name)) \<and>
           getpath [''Properties'', ''DefaultActions''] lst = Some (JList [action]) \<and>
           getpath [''ForwardConfig'', ''TargetGroups''] action = Some (JList tgs) \<and>
           map pool_weight tgs =
             map (\<lambda>(version, weight, clusters). Some (''TG'' @ version @ stack_name, weight)) versions"
proof -
  from plan_succeeds [OF assms(2,3)] obtain resources st1 st' where
    res: "plan_resources e region stack_name versions st = (Inr resources, st1)" and
    pl: "plan e region stack_name versions st = (Inr (json_dumps e (cf_template resources)), st')"
    by blast
  have keys: "map fst resources =
             (''ALB'' @ stack_name) # (''ALBListener'' @ stack_name) #
               map (\<lambda>version. ''TG'' @ version @ stack_name) (map fst versions)"
    by (rule plan_resources_keys [OF res assms(1)])
  have dist: "distinct (map fst resources)"
    unfolding keys by (rule distinct_keys [OF assms(1)])
  have pools: "\<forall>(version, weight, clusters) \<in> set versions.
              \<exists>ids pool. discover e region clusters = Inr ids \<and>
                map_of resources (''TG'' @ version @ stack_name) = Some pool \<and>
                getitem ''Type'' pool = Some (JString ''AWS::ElasticLoadBalancingV2::TargetGroup'') \<and>
                getpath [''Properties'', ''Name''] pool =
                  Some (JString (''tg-'' @ version @ ''-'' @ stack_name)) \<and>
                getpath [''Properties'', ''Targets''] pool =
                  Some (JList (map (\<lambda>instance. JObject [(''Id'', JString instance), (''Port'', JInt 8000)]) ids))"
  proof (intro ballI, clarify)
    fix version weight clusters
    assume "(version, weight, clusters) \<in> set versions"
    from plan_target_groups_pool [OF res [unfolded plan_resources_eq] assms(1) this]
    obtain ids where d: "discover e region clusters = Inr ids" and
      m: "map_of resources (''TG'' @ version @ stack_name) =
            Some (target_group version stack_name (map target ids))"
      by blast
    show "\<exists>ids pool. discover e region clusters = Inr ids \<and>
                map_of resources (''TG'' @ version @ stack_name) = Some pool \<and>
                getitem ''Type'' pool = Some (JString ''AWS::ElasticLoadBalancingV2::TargetGroup'') \<and>
                getpath [''Properties'', ''Name''] pool =
                  Some (JString (''tg-'' @ version @ ''-'' @ stack_name)) \<and>
                getpath [''Properties'', ''Targets''] pool =
                  Some (JList (map (\<lambda>instance. JObject [(''Id'', JString instance), (''Port'', JInt 8000)]) ids))"
      by (intro exI conjI) (rule d m target_group_reads(1,3) target_group_targets)+
  qed
  let ?tgs = "target_groups stack_name versions"
  let ?action = "JObject [(''Type'', JString ''forward''),
                       (''ForwardConfig'', JObject [(''TargetGroups'', JList ?tgs)])]"
  have l1: "map_of resources (''ALBListener'' @ stack_name) = Some (listener stack_name ?tgs)"
    by (rule plan_resources_listener [OF res])
  have l3: "getpath [''ForwardConfig'', ''TargetGroups''] ?action = Some (JList ?tgs)"
    by simp
  show ?thesis
    by (intro exI conjI)
      (rule res pl cf_template_resources keys dist pools l1 listener_reads(1,2,3) l3
         pool_weight_target_groups)+
qed

theorem plan_pools_and_weights_witness:
  "distinct (map fst demo_versions) \<and>
   discover demo_env ''us-east-1'' [''c1''] = Inr [''i-aaa'', ''i-bbb''] \<and>
   discover demo_env ''us-east-1'' [''c2''] = Inr [''i-ccc''] \<and>
   (\<forall>content. write_file demo_env ''cf_template.json'' content = Inr ()) \<and>
   (\<exists>resources st1 st' lst action tgs.
           plan_resources demo_env ''us-east-1'' ''demo'' demo_versions init = (Inr resources, st1) \<and>
           plan demo_env ''us-east-1'' ''demo'' demo_versions init =
             (Inr (json_dumps demo_env (cf_template resources)), st') \<and>
           getitem ''Resources'' (cf_template resources) = Some (JObject resources) \<and>
           map fst resources =
             (''ALB'' @ ''demo'') # (''ALBListener'' @ ''demo'') #
               map (\<lambda>version. ''TG'' @ version @ ''demo'') (map fst demo_versions) \<and>
           distinct (map fst resources) \<and>
           (\<forall>(version, weight, clusters) \<in> set demo_versions.
              \<exists>ids pool. discover demo_env ''us-east-1'' clusters = Inr ids \<and>
                map_of resources (''TG'' @ version @ ''demo'') = Some pool \<and>
                getitem ''Type'' pool = Some (JString ''AWS::ElasticLoadBalancingV2::TargetGroup'') \<and>
                getpath [''Properties'', ''Name''] pool =
                  Some (JString (''tg-'' @ version @ ''-'' @ ''demo'')) \<and>
                getpath [''Properties'', ''Targets''] pool =
                  Some (JList (map (\<lambda>instance. JObject [(''Id'', JString instance), (''Port'', JInt 8000)]) ids))) \<and>
           map_of resources (''ALBListener'' @ ''demo'') = Some lst \<and>
           getitem ''Type'' lst = Some (JString ''AWS::ElasticLoadBalancingV2::Listener'') \<and>
           getpath [''Properties'', ''LoadBalancerArn'', ''Ref''] lst = Some (JString (''ALB'' @ ''demo'')) \<and>
           getpath [''Properties'', ''DefaultActions''] lst = Some (JList [action]) \<and>
           getpath [''ForwardConfig'', ''TargetGroups''] action = Some (JList tgs) \<and>
           map pool_weight tgs =
             map (\<lambda>(version, weight, clusters). Some (''TG'' @ version @ ''demo'', weight)) demo_versions)"
proof -
  have h1: "distinct (map fst demo_versions)"
    by (simp add: demo_versions_def)
  have h2: "\<forall>(version, weight, clusters) \<in> set demo_versions.
      \<exists>ids. discover demo_env ''us-east-1'' clusters = Inr ids"
    by (simp add: demo_versions_def discover_def demo_env_def tags_def)
  have h3: "\<forall>content. write_file demo_env ''cf_template.json'' content = Inr ()"
    by (simp add: demo_env_def)
  have d1: "discover demo_env ''us-east-1'' [''c1''] = Inr [''i-aaa'', ''i-bbb'']"
    and d2: "discover demo_env ''us-east-1'' [''c2''] = Inr [''i-ccc'']"
    by (simp_all add: discover_def demo_env_def tags_def)
  show ?thesis
    using h1 d1 d2 h3 plan_pools_and_weights [OF h1 h2 h3, of "''demo''" init]
    by (intro conjI) assumption+
qed

lemma plan_target_groups_last:
  assumes "plan_target_groups e region stack_name (before @ (version, weight, clusters) # after)
             resources st = (Inr resources', st')"
    and "version \<notin> set (map fst after)"
  shows "\<exists>ids. discover e region clusters = Inr ids \<and>
           map_of resources' (''TG'' @ version @ stack_name) =
             Some (target_group version stack_name (map target ids))"
  using assms(1)
proof (induction before arbitrary: resources st)
  case Nil
  from Nil obtain ids st1 where
    fi: "find_instances e region clusters st = (Inr ids, st1)" and
    rec: "plan_target_groups e region stack_name after
            (setitem (''TG'' @ version @ stack_name)
               (target_group version stack_name (map target ids)) resources) st1 = (Inr resources', st')"
    by (auto split: prod.splits sum.splits)
  from assms(2) have "\<forall>v \<in> set (map fst after). ''TG'' @ version @ stack_name \<noteq> ''TG'' @ v @ stack_name"
    by auto
  from plan_target_groups_other [OF rec this]
  have "map_of resources' (''TG'' @ version @ stack_name) =
          Some (target_group version stack_name (map target ids))"
    by (simp add: map_of_setitem)
  then show ?case using find_instances_Inr(1) [OF fi] by simp
next
  case (Cons x before)
  obtain version' weight' clusters' where x: "x = (version', weight', clusters')" by (cases x)
  from Cons.prems x obtain ids st1 where
    rec: "plan_target_groups e region stack_name (before @ (version, weight, clusters) # after)
            (setitem (''TG'' @ version' @ stack_name)
               (target_group version' stack_name (map target ids)) resources) st1 = (Inr resources', st')"
    by (auto split: prod.splits sum.splits)
  from Cons.IH [OF rec] show ?case .
qed

text \<open>
  A version without instances need not end with an empty target group. Cluster \<open>c3\<close> has no instance, but
  a later entry repeats the label \<open>v1\<close> with cluster \<open>c1\<close>: the target group under the
  key of \<open>v1\<close> in the returned template holds the two instances of \<open>c1\<close>.
\<close>

theorem plan_empty_pool_counterexample:
  "discover demo_env ''us-east-1'' [''c3''] = Inr [] \<and>
   fst (plan demo_env ''us-east-1'' ''demo'' shadow_versions init) =
     Inr (json_dumps demo_env (cf_template
       [(''ALBdemo'', load_balancer ''demo''),
        (''ALBListenerdemo'', listener ''demo'' (target_groups ''demo'' shadow_versions)),
        (''TGv1demo'', target_group ''v1'' ''demo'' [target ''i-aaa'', target ''i-bbb''])])) \<and>
   fst (plan_resources demo_env ''us-east-1'' ''demo'' shadow_versions init) =
     Inr [(''ALBdemo'', load_balancer ''demo''),
          (''ALBListenerdemo'', listener ''demo'' (target_groups ''demo'' shadow_versions)),
          (''TGv1demo'', target_group ''v1'' ''demo'' [target ''i-aaa'', target ''i-bbb''])] \<and>
   getpath [''Resources'', ''TGv1demo'', ''Properties'', ''Targets'']
     (cf_template
       [(''ALBdemo'', load_balancer ''demo''),
        (''ALBListenerdemo'', listener ''demo'' (target_groups ''demo'' shadow_versions)),
        (''TGv1demo'', target_group ''v1'' ''demo'' [target ''i-aaa'', target ''i-bbb''])]) =
     Some (JList [JObject [(''Id'', JString ''i-aaa''), (''Port'', JInt 8000)],
                  JObject [(''Id'', JString ''i-bbb''), (''Port'', JInt 8000)]])"
  by (simp add: plan_def plan_resources_def shadow_versions_def init_def find_instances_def
      discover_def demo_env_def tags_def emit_def print_def Let_def cf_template_def
      target_group_def target_def)

text \<open>
  C6, amended. When every discovery succeeds and the template file can be written,
  \<open>plan\<close> succeeds, whatever the labels and however many instances were found. For every
  entry of \<open>versions\<close> whose discovery returns no instance and whose label no later entry
  repeats (so for every such entry when the labels are pairwise different), the
  \<open>Resources\<close> of the returned template hold, under that version's key, a target group
  with that version's name whose \<open>Targets\<close> is the empty list.
\<close>

theorem plan_empty_pool:
  assumes "\<forall>(version, weight, clusters) \<in> set versions. \<exists>ids. discover e region clusters = Inr ids"
    and "\<forall>content. write_file e ''cf_template.json'' content = Inr ()"
  shows "\<exists>resources st1 st'.
           plan_resources e region stack_name versions st = (Inr resources, st1) \<and>
           plan e region stack_name versions st = (Inr (json_dumps e (cf_template resources)), st') \<and>
           getitem ''Resources'' (cf_template resources) = Some (JObject resources) \<and>
           (\<forall>before version weight clusters after.
              versions = before @ (version, weight, clusters) # after \<and>
              discover e region clusters = Inr [] \<and>
              version \<notin> set (map fst after) \<longrightarrow>
              (\<exists>pool.
                 map_of resources (''TG'' @ version @ stack_name) = Some pool \<and>
                 getitem ''Type'' pool = Some (JString ''AWS::ElasticLoadBalancingV2::TargetGroup'') \<and>
                 getpath [''Properties'', ''Name''] pool =
                   Some (JString (''tg-'' @ version @ ''-'' @ stack_name)) \<and>
                 getpath [''Properties'', ''Targets''] pool = Some (JList [])))"
proof -
  from plan_succeeds [OF assms] obtain resources st1 st' where
    res: "plan_resources e region stack_name versions st = (Inr resources, st1)" and
    pl: "plan e region stack_name versions st = (Inr (json_dumps e (cf_template resources)), st')"
    by blast
  have pools: "\<forall>before version weight clusters after.
              versions = before @ (version, weight, clusters) # after \<and>
              discover e region clusters = Inr [] \<and>
              version \<notin> set (map fst after) \<longrightarrow>
              (\<exists>pool.
                 map_of resources (''TG'' @ version @ stack_name) = Some pool \<and>
                 getitem ''Type'' pool = Some (JString ''AWS::ElasticLoadBalancingV2::TargetGroup'') \<and>
                 getpath [''Properties'', ''Name''] pool =
                   Some (JString (''tg-'' @ version @ ''-'' @ stack_name)) \<and>
                 getpath [''Properties'', ''Targets''] pool = Some (JList []))"
  proof (intro allI impI, elim conjE)
    fix before version weight clusters after
    assume v: "versions = before @ (version, weight, clusters) # after"
      and d: "discover e region clusters = Inr []"
      and n: "version \<notin> set (map fst after)"
    from plan_target_groups_last [OF res [unfolded plan_resources_eq v] n] d
    have pool: "map_of resources (''TG'' @ version @ stack_name) =
                  Some (target_group version stack_name [])"
      by simp
    show "\<exists>pool.
                 map_of resources (''TG'' @ version @ stack_name) = Some pool \<and>
                 getitem ''Type'' pool = Some (JString ''AWS::ElasticLoadBalancingV2::TargetGroup'') \<and>
                 getpath [''Properties'', ''Name''] pool =
                   Some (JString (''tg-'' @ version @ ''-'' @ stack_name)) \<and>
                 getpath [''Properties'', ''Targets''] pool = Some (JList [])"
      by (intro exI conjI) (rule pool target_group_reads)+
  qed
  show ?thesis
    by (intro exI conjI) (rule res pl cf_template_resources pools)+
qed

theorem plan_empty_pool_witness:
  "discover demo_env ''us-east-1'' [''c1''] = Inr [''i-aaa'', ''i-bbb''] \<and>
   discover demo_env ''us-east-1'' [''c3''] = Inr [] \<and>
   (\<forall>content. write_file demo_env ''cf_template.json'' content = Inr ()) \<and>
   empty_versions = [(''v1'', 90, [''c1''])] @ (''v3'', 10, [''c3'']) # [] \<and>
   ''v3'' \<notin> set (map fst ([] :: version list)) \<and>
   (\<exists>resources st1 st' pool.
           plan_resources demo_env ''us-east-1'' ''demo'' empty_versions init = (Inr resources, st1) \<and>
           plan demo_env ''us-east-1'' ''demo'' empty_versions init =
             (Inr (json_dumps demo_env (cf_template resources)), st') \<and>
           getitem ''Resources'' (cf_template resources) = Some (JObject resources) \<and>
           map_of resources (''TG'' @ ''v3'' @ ''demo'') = Some pool \<and>
           getitem ''Type'' pool = Some (JString ''AWS::ElasticLoadBalancingV2::TargetGroup'') \<and>
           getpath [''Properties'', ''Name''] pool = Some (JString (''tg-'' @ ''v3'' @ ''-'' @ ''demo'')) \<and>
           getpath [''Properties'', ''Targets''] pool = Some (JList []))"
proof -
  have d1: "discover demo_env ''us-east-1'' [''c1''] = Inr [''i-aaa'', ''i-bbb'']"
    and d3: "discover demo_env ''us-east-1'' [''c3''] = Inr []"
    by (simp_all add: discover_def demo_env_def tags_def)
  have h1: "\<forall>(version, weight, clusters) \<in> set empty_versions.
      \<exists>ids. discover demo_env ''us-east-1'' clusters = Inr ids"
    using d1 d3 by (simp add: empty_versions_def)
  have h2: "\<forall>content. write_file demo_env ''cf_template.json'' content = Inr ()"
    by (simp add: demo_env_def)
  have v: "empty_versions = [(''v1'', 90, [''c1''])] @ (''v3'', 10, [''c3'']) # []"
    by (simp add: empty_versions_def)
  have n: "''v3'' \<notin> set (map fst ([] :: version list))"
    by simp
  from plan_empty_pool [OF h1 h2, of "''demo''" init] obtain resources st1 st' where
    res: "plan_resources demo_env ''us-east-1'' ''demo'' empty_versions init = (Inr resources, st1)" and
    pl: "plan demo_env ''us-east-1'' ''demo'' empty_versions init =
             (Inr (json_dumps demo_env (cf_template resources)), st')" and
    tie: "getitem ''Resources'' (cf_template resources) = Some (JObject resources)" and
    pools: "\<forall>before version weight clusters after.
              empty_versions = before @ (version, weight, clusters) # after \<and>
              discover demo_env ''us-east-1'' clusters = Inr [] \<and>
              version \<notin> set (map fst after) \<longrightarrow>
              (\<exists>pool.
                 map_of resources (''TG'' @ version @ ''demo'') = Some pool \<and>
                 getitem ''Type'' pool = Some (JString ''AWS::ElasticLoadBalancingV2::TargetGroup'') \<and>
                 getpath [''Properties'', ''Name''] pool =
                   Some (JString (''tg-'' @ version @ ''-'' @ ''demo'')) \<and>
                 getpath [''Properties'', ''Targets''] pool = Some (JList []))"
    by blast
  from pools v d3 n obtain pool where
    p: "map_of resources (''TG'' @ ''v3'' @ ''demo'') = Some pool"
       "getitem ''Type'' pool = Some (JString ''AWS::ElasticLoadBalancingV2::TargetGroup'')"
       "getpath [''Properties'', ''Name''] pool = Some (JString (''tg-'' @ ''v3'' @ ''-'' @ ''demo''))"
       "getpath [''Properties'', ''Targets''] pool = Some (JList [])"
    by blast
  have concl: "\<exists>resources st1 st' pool.
           plan_resources demo_env ''us-east-1'' ''demo'' empty_versions init = (Inr resources, st1) \<and>
           plan demo_env ''us-east-1'' ''demo'' empty_versions init =
             (Inr (json_dumps demo_env (cf_template resources)), st') \<and>
           getitem ''Resources'' (cf_template resources) = Some (JObject resources) \<and>
           map_of resources (''TG'' @ ''v3'' @ ''demo'') = Some pool \<and>
           getitem ''Type'' pool = Some (JString ''AWS::ElasticLoadBalancingV2::TargetGroup'') \<and>
           getpath [''Properties'', ''Name''] pool = Some (JString (''tg-'' @ ''v3'' @ ''-'' @ ''demo'')) \<and>
           getpath [''Properties'', ''Targets''] pool = Some (JList [])"
    by (intro exI conjI) (rule res pl tie p)+
  show ?thesis
    using d1 d3 h2 v n concl by (intro conjI) assumption+
qed








lemma plan_target_groups_cong:
  assumes "\<forall>(version, weight, clusters) \<in> set versions.
             discover e1 region clusters = discover e2 region clusters"
  shows "fst (plan_target_groups e1 region stack_name versions resources st1) =
         fst (plan_target_groups e2 region stack_name versions resources st2)"
  using assms
proof (induction versions arbitrary: resources st1 st2)
  case Nil
  then show ?case by simp
next
  case (Cons x versions)
  obtain version weight clusters where x: "x = (version, weight, clusters)" by (cases x)
  obtain r1 st1' where f1: "find_instances e1 region clusters st1 = (r1, st1')"
    by (cases "find_instances e1 region clusters st1")
  obtain r2 st2' where f2: "find_instances e2 region clusters st2 = (r2, st2')"
    by (cases "find_instances e2 region clusters st2")
  have "discover e1 region clusters = discover e2 region clusters"
    using Cons.prems x by simp
  then have r: "r1 = r2"
    using find_instances_result [of e1 region clusters st1]
      find_instances_result [of e2 region clusters st2] f1 f2 by simp
  have rest: "\<forall>(version, weight, clusters) \<in> set versions.
             discover e1 region clusters = discover e2 region clusters"
    using Cons.prems by simp
  show ?case
  proof (cases r2)
    case (Inl err)
    then show ?thesis using x f1 f2 r by simp
  next
    case (Inr ids)
    then show ?thesis using x f1 f2 r Cons.IH [OF rest] by simp
  qed
qed

text \<open>
  C7. The value of \<open>plan\<close> depends on the environment only through what discovery
  returns for the clusters of \<open>versions\<close>, the serialiser and the file write, and not at
  all on the state it starts from. So two calls with the same region, stack name and
  versions, in environments that agree on those, build the same resources and return the
  same result, also when the second call runs after the first.
\<close>

theorem plan_deterministic:
  assumes "\<forall>(version, weight, clusters) \<in> set versions.
             discover e1 region clusters = discover e2 region clusters"
    and "json_dumps e1 = json_dumps e2"
    and "write_file e1 = write_file e2"
  shows "fst (plan_resources e1 region stack_name versions st1) =
           fst (plan_resources e2 region stack_name versions st2) \<and>
         fst (plan e1 region stack_name versions st1) =
           fst (plan e2 region stack_name versions st2)"
proof -
  have res: "fst (plan_resources e1 region stack_name versions st1) =
           fst (plan_resources e2 region stack_name versions st2)"
    unfolding plan_resources_eq by (rule plan_target_groups_cong [OF assms(1)])
  obtain r1 s1 where p1: "plan_resources e1 region stack_name versions st1 = (r1, s1)"
    by (cases "plan_resources e1 region stack_name versions st1")
  obtain r2 s2 where p2: "plan_resources e2 region stack_name versions st2 = (r2, s2)"
    by (cases "plan_resources e2 region stack_name versions st2")
  from res p1 p2 have r: "r1 = r2" by simp
  have "fst (plan e1 region stack_name versions st1) =
           fst (plan e2 region stack_name versions st2)"
    using p1 p2 r assms(2,3) by (simp add: plan_def Let_def split: sum.splits)
  with res show ?thesis by simp
qed

theorem plan_deterministic_witness:
  "discover demo_env ''us-east-1'' [''c1''] = discover other_env ''us-east-1'' [''c1''] \<and>
   discover demo_env ''us-east-1'' [''c2''] = discover other_env ''us-east-1'' [''c2''] \<and>
   discover demo_env ''us-east-1'' [''c9''] \<noteq> discover other_env ''us-east-1'' [''c9''] \<and>
   json_dumps demo_env = json_dumps other_env \<and>
   write_file demo_env = write_file other_env \<and>
   fst (plan_resources demo_env ''us-east-1'' ''demo'' demo_versions init) =
     fst (plan_resources other_env ''us-east-1'' ''demo'' demo_versions
            (snd (plan demo_env ''us-east-1'' ''demo'' demo_versions init))) \<and>
   fst (plan demo_env ''us-east-1'' ''demo'' demo_versions init) =
     fst (plan other_env ''us-east-1'' ''demo'' demo_versions
            (snd (plan demo_env ''us-east-1'' ''demo'' demo_versions init)))"
proof -
  have d1: "discover demo_env ''us-east-1'' [''c1''] = discover other_env ''us-east-1'' [''c1'']"
    and d2: "discover demo_env ''us-east-1'' [''c2''] = discover other_env ''us-east-1'' [''c2'']"
    and d9: "discover demo_env ''us-east-1'' [''c9''] \<noteq> discover other_env ''us-east-1'' [''c9'']"
    by (simp_all add: discover_def other_env_def demo_env_def tags_def)
  have h1: "\<forall>(version, weight, clusters) \<in> set demo_versions.
             discover demo_env ''us-east-1'' clusters = discover other_env ''us-east-1'' clusters"
    using d1 d2 by (simp add: demo_versions_def)
  have h2: "json_dumps demo_env = json_dumps other_env"
    and h3: "write_file demo_env = write_file other_env"
    by (simp_all add: other_env_def)
  show ?thesis
    using d1 d2 d9 h2 h3
      plan_deterministic [OF h1 h2 h3, of "''demo''" init
        "snd (plan demo_env ''us-east-1'' ''demo'' demo_versions init)"]
    by simp
qed

lemma plan_calls:
  assumes "plan e region stack_name versions st = (Inr cf_template_json, st')"
  shows "calls st' = calls st @
           map (\<lambda>(version, weight, clusters). Client ''ec2'' region (DescribeInstances (tags clusters))) versions @
           [WriteFile ''cf_template.json'' cf_template_json]"
proof -
  from plan_Inr [OF assms] obtain resources st1 where
    res: "plan_resources e region stack_name versions st = (Inr resources, st1)" and
    c: "calls st' = calls st1 @ [WriteFile ''cf_template.json'' cf_template_json]"
    by blast
  from plan_target_groups_calls [OF res [unfolded plan_resources_eq]]
  have "calls st1 = calls st @
           map (\<lambda>(version, weight, clusters). Client ''ec2'' region (DescribeInstances (tags clusters))) versions"
    by (simp add: print_def)
  with c show ?thesis by simp
qed

text \<open>
  The source has no check of the labels. With the label \<open>v1\<close> given twice, \<open>plan\<close>
  returns a template, after one discovery call for each of the two entries; the second
  entry's target group has replaced the first under the key they share, and the routing
  rule still has both entries.
\<close>

theorem plan_duplicate_labels_counterexample:
  "\<not> distinct (map fst dup_versions) \<and>
   fst (plan demo_env ''us-east-1'' ''demo'' dup_versions init) = Inr ''{}'' \<and>
   calls (snd (plan demo_env ''us-east-1'' ''demo'' dup_versions init)) =
     [Client ''ec2'' ''us-east-1'' (DescribeInstances (tags [''c1''])),
      Client ''ec2'' ''us-east-1'' (DescribeInstances (tags [''c2''])),
      WriteFile ''cf_template.json'' ''{}''] \<and>
   fst (plan_resources demo_env ''us-east-1'' ''demo'' dup_versions init) =
     Inr [(''ALBdemo'', load_balancer ''demo''),
          (''ALBListenerdemo'', listener ''demo'' (target_groups ''demo'' dup_versions)),
          (''TGv1demo'', target_group ''v1'' ''demo'' [target ''i-ccc''])]"
  by (simp add: plan_def plan_resources_def dup_versions_def init_def find_instances_def
      demo_env_def tags_def emit_def print_def Let_def)

text \<open>
  C2, amended. For every sequence of versions, with or without a repeated label: when
  every discovery succeeds and the template file can be written, \<open>plan\<close> succeeds, and
  the calls it has issued are one discovery call per element of \<open>versions\<close>, in input
  order, followed by the write of the template file.
\<close>

theorem plan_no_label_check:
  assumes "\<forall>(version, weight, clusters) \<in> set versions. \<exists>ids. discover e region clusters = Inr ids"
    and "\<forall>content. write_file e ''cf_template.json'' content = Inr ()"
  shows "\<exists>cf_template_json st'.
           plan e region stack_name versions st = (Inr cf_template_json, st') \<and>
           calls st' = calls st @
             map (\<lambda>(version, weight, clusters). Client ''ec2'' region (DescribeInstances (tags clusters))) versions @
             [WriteFile ''cf_template.json'' cf_template_json]"
proof -
  from plan_succeeds [OF assms] obtain cf_template_json st' where
    pl: "plan e region stack_name versions st = (Inr cf_template_json, st')"
    by blast
  from plan_calls [OF pl] pl show ?thesis by blast
qed

theorem plan_no_label_check_witness:
  "\<not> distinct (map fst dup_versions) \<and>
   discover demo_env ''us-east-1'' [''c1''] = Inr [''i-aaa'', ''i-bbb''] \<and>
   discover demo_env ''us-east-1'' [''c2''] = Inr [''i-ccc''] \<and>
   (\<forall>content. write_file demo_env ''cf_template.json'' content = Inr ()) \<and>
   (\<exists>cf_template_json st'.
           plan demo_env ''us-east-1'' ''demo'' dup_versions init = (Inr cf_template_json, st') \<and>
           calls st' = calls init @
             map (\<lambda>(version, weight, clusters). Client ''ec2'' ''us-east-1'' (DescribeInstances (tags clusters))) dup_versions @
             [WriteFile ''cf_template.json'' cf_template_json])"
proof -
  have h0: "\<not> distinct (map fst dup_versions)"
    by (simp add: dup_versions_def)
  have d1: "discover demo_env ''us-east-1'' [''c1''] = Inr [''i-aaa'', ''i-bbb'']"
    and d2: "discover demo_env ''us-east-1'' [''c2''] = Inr [''i-ccc'']"
    by (simp_all add: discover_def demo_env_def tags_def)
  have h1: "\<forall>(version, weight, clusters) \<in> set dup_versions.
      \<exists>ids. discover demo_env ''us-east-1'' clusters = Inr ids"
    using d1 d2 by (simp add: dup_versions_def)
  have h2: "\<forall>content. write_file demo_env ''cf_template.json'' content = Inr ()"
    by (simp add: demo_env_def)
  show ?thesis
    using h0 d1 d2 h2 plan_no_label_check [OF h1 h2, of "''demo''" init]
    by (intro conjI) assumption+
qed

section \<open>Properties of apply and delete\<close>

lemma apply_wait_Inr:
  assumes "apply_wait e region stack_name waiter waiter_conf st = (Inr result, st')"
  shows "result = None \<and>
         (\<exists>stack_id stacks physical_resource_id ALB_dns_name others.
            describe_stacks e region stack_name = Inr (stack_id # stacks) \<and>
            waiter_wait e region waiter stack_name waiter_conf = Inr () \<and>
            describe_stack_resource e region stack_name (''ALB'' @ stack_name) = Inr physical_resource_id \<and>
            describe_load_balancers e ''us-west-2'' [physical_resource_id] = Inr (ALB_dns_name # others) \<and>
            calls st' = calls st @
              [Client ''cloudformation'' region (DescribeStacks stack_name),
               Client ''cloudformation'' region (WaiterWait waiter stack_name waiter_conf),
               Client ''cloudformation'' region (DescribeStackResource stack_name (''ALB'' @ stack_name)),
               Client ''elbv2'' ''us-west-2'' (DescribeLoadBalancers [physical_resource_id])] \<and>
            stdout st' = stdout st @
              [[Text ''View your stack at '',
                Text (''https://'' @ region @ ''.console.aws.amazon.com/cloudformation/home?region=''
                        @ region @ ''#stacks/stackinfo?stackId='' @ stack_id),
                Text ''.\<newline>''],
               [Text ''Finished deploying the cloudformation template.\<newline>''],
               [Text ''The DNS name of your ALB is '', Text ALB_dns_name, Text ''.'']])"
  using assms
  by (auto simp: apply_wait_def Let_def emit_def print_def split: sum.splits list.splits)

lemma apply_template_Inr:
  assumes "apply_template e region stack_name cf_template_json parameters st = (Inr result, st')"
  shows "(create_stack e region stack_name cf_template_json parameters = Inr () \<and>
          apply_wait e region stack_name ''stack_create_complete'' []
            (emit (Client ''cloudformation'' region (CreateStack stack_name cf_template_json parameters))
               (print [Text ''Applying the cloudformation template ...\<newline>''] st)) = (Inr result, st')) \<or>
         (create_stack e region stack_name cf_template_json parameters = Inl AlreadyExistsException \<and>
          update_stack e region stack_name cf_template_json parameters = Inr () \<and>
          apply_wait e region stack_name ''stack_update_complete'' [(''Delay'', 2)]
            (emit (Client ''cloudformation'' region (UpdateStack stack_name cf_template_json parameters))
               (emit (Client ''cloudformation'' region (CreateStack stack_name cf_template_json parameters))
                  (print [Text ''Applying the cloudformation template ...\<newline>''] st))) = (Inr result, st'))"
  using assms
  by (auto simp: apply_template_def Let_def split: sum.splits error.splits)

lemma apply_template_success:
  assumes "apply_template e region stack_name cf_template_json parameters st = (Inr result, st')"
  shows "\<exists>submitted waiter waiter_conf stack_id stacks physical_resource_id ALB_dns_name others.
           (create_stack e region stack_name cf_template_json parameters = Inr () \<and>
              submitted = [CreateStack stack_name cf_template_json parameters] \<and>
              waiter = ''stack_create_complete'' \<and> waiter_conf = [] \<or>
            create_stack e region stack_name cf_template_json parameters = Inl AlreadyExistsException \<and>
              update_stack e region stack_name cf_template_json parameters = Inr () \<and>
              submitted = [CreateStack stack_name cf_template_json parameters,
                           UpdateStack stack_name cf_template_json parameters] \<and>
              waiter = ''stack_update_complete'' \<and> waiter_conf = [(''Delay'', 2)]) \<and>
           result = None \<and>
           describe_stacks e region stack_name = Inr (stack_id # stacks) \<and>
           waiter_wait e region waiter stack_name waiter_conf = Inr () \<and>
           describe_stack_resource e region stack_name (''ALB'' @ stack_name) = Inr physical_resource_id \<and>
           describe_load_balancers e ''us-west-2'' [physical_resource_id] = Inr (ALB_dns_name # others) \<and>
           calls st' = calls st @ map (Client ''cloudformation'' region)
              (submitted @
               [DescribeStacks stack_name,
                WaiterWait waiter stack_name waiter_conf,
                DescribeStackResource stack_name (''ALB'' @ stack_name)]) @
              [Client ''elbv2'' ''us-west-2'' (DescribeLoadBalancers [physical_resource_id])] \<and>
           stdout st' = stdout st @
              [[Text ''Applying the cloudformation template ...\<newline>''],
               [Text ''View your stack at '',
                Text (''https://'' @ region @ ''.console.aws.amazon.com/cloudformation/home?region=''
                        @ region @ ''#stacks/stackinfo?stackId='' @ stack_id),
                Text ''.\<newline>''],
               [Text ''Finished deploying the cloudformation template.\<newline>''],
               [Text ''The DNS name of your ALB is '', Text ALB_dns_name, Text ''.'']]"
  using apply_template_Inr [OF assms]
proof (elim disjE conjE)
  assume c: "create_stack e region stack_name cf_template_json parameters = Inr ()"
    and w: "apply_wait e region stack_name ''stack_create_complete'' []
            (emit (Client ''cloudformation'' region (CreateStack stack_name cf_template_json parameters))
               (print [Text ''Applying the cloudformation template ...\<newline>''] st)) = (Inr result, st')"
  from apply_wait_Inr [OF w] c show ?thesis
    by (simp add: emit_def print_def)
next
  assume c: "create_stack e region stack_name cf_template_json parameters = Inl AlreadyExistsException"
    and u: "update_stack e region stack_name cf_template_json parameters = Inr ()"
    and w: "apply_wait e region stack_name ''stack_update_complete'' [(''Delay'', 2)]
            (emit (Client ''cloudformation'' region (UpdateStack stack_name cf_template_json parameters))
               (emit (Client ''cloudformation'' region (CreateStack stack_name cf_template_json parameters))
                  (print [Text ''Applying the cloudformation template ...\<newline>''] st))) = (Inr result, st')"
  from apply_wait_Inr [OF w] c u show ?thesis
    by (simp add: emit_def print_def)
qed

lemma demo_apply:
  "apply_template demo_env ''us-east-1'' ''demo'' ''{}'' [] init =
     (Inr None,
      \<lparr>calls = [Client ''cloudformation'' ''us-east-1'' (CreateStack ''demo'' ''{}'' []),
                Client ''cloudformation'' ''us-east-1'' (DescribeStacks ''demo''),
                Client ''cloudformation'' ''us-east-1'' (WaiterWait ''stack_create_complete'' ''demo'' []),
                Client ''cloudformation'' ''us-east-1'' (DescribeStackResource ''demo'' ''ALBdemo''),
                Client ''elbv2'' ''us-west-2'' (DescribeLoadBalancers [''arn:alb/ALBdemo''])],
       stdout = [[Text ''Applying the cloudformation template ...\<newline>''],
                 [Text ''View your stack at '',
                  Text ''https://us-east-1.console.aws.amazon.com/cloudformation/home?region=us-east-1#stacks/stackinfo?stackId=arn:stack/demo'',
                  Text ''.\<newline>''],
                 [Text ''Finished deploying the cloudformation template.\<newline>''],
                 [Text ''The DNS name of your ALB is '', Text ''arn:alb/ALBdemo.elb.amazonaws.com'', Text ''.'']]\<rparr>)"
  by (simp add: apply_template_def apply_wait_def demo_env_def init_def emit_def print_def Let_def)

lemma other_apply:
  "apply_template other_env ''us-east-1'' ''demo'' ''{}'' [] init =
     (Inr None,
      \<lparr>calls = [Client ''cloudformation'' ''us-east-1'' (CreateStack ''demo'' ''{}'' []),
                Client ''cloudformation'' ''us-east-1'' (UpdateStack ''demo'' ''{}'' []),
                Client ''cloudformation'' ''us-east-1'' (DescribeStacks ''demo''),
                Client ''cloudformation'' ''us-east-1'' (WaiterWait ''stack_update_complete'' ''demo'' [(''Delay'', 2)]),
                Client ''cloudformation'' ''us-east-1'' (DescribeStackResource ''demo'' ''ALBdemo''),
                Client ''elbv2'' ''us-west-2'' (DescribeLoadBalancers [''arn:alb/ALBdemo''])],
       stdout = [[Text ''Applying the cloudformation template ...\<newline>''],
                 [Text ''View your stack at '',
                  Text ''https://us-east-1.console.aws.amazon.com/cloudformation/home?region=us-east-1#stacks/stackinfo?stackId=arn:stack/demo'',
                  Text ''.\<newline>''],
                 [Text ''Finished deploying the cloudformation template.\<newline>''],
                 [Text ''The DNS name of your ALB is '', Text ''arn:alb/ALBdemo.elb.amazonaws.com'', Text ''.'']]\<rparr>)"
  by (simp add: apply_template_def apply_wait_def other_env_def demo_env_def init_def emit_def print_def Let_def)

text \<open>
  \<open>apply\<close> has no \<open>return\<close> statement. In the test double the load balancer's address is
  \<open>arn:alb/ALBdemo.elb.amazonaws.com\<close>; a successful run prints it and its value is
  \<open>None\<close>, not the address.
\<close>

theorem apply_returns_address_counterexample:
  "fst (apply_template demo_env ''us-east-1'' ''demo'' ''{}'' [] init) = Inr None \<and>
   describe_stack_resource demo_env ''us-east-1'' ''demo'' ''ALBdemo'' = Inr ''arn:alb/ALBdemo'' \<and>
   describe_load_balancers demo_env ''us-west-2'' [''arn:alb/ALBdemo''] =
     Inr [''arn:alb/ALBdemo.elb.amazonaws.com''] \<and>
   fst (apply_template demo_env ''us-east-1'' ''demo'' ''{}'' [] init) \<noteq>
     Inr (Some ''arn:alb/ALBdemo.elb.amazonaws.com'')"
  by (simp add: demo_apply) (simp add: demo_env_def)

text \<open>
  C4, amended. In every successful run of \<open>apply\<close>, the last three calls are the wait,
  which reported success, the lookup of the physical id of the resource
  \<open>ALB<stack_name>\<close>, and the load balancer query for that id; the first address of the
  answer is printed in the last line of the output, and the value of \<open>apply\<close> is
  \<open>None\<close>.
\<close>

theorem apply_prints_address:
  assumes "apply_template e region stack_name cf_template_json parameters st = (Inr result, st')"
  shows "result = None \<and>
         (\<exists>before waiter waiter_conf physical_resource_id ALB_dns_name others.
            waiter_wait e region waiter stack_name waiter_conf = Inr () \<and>
            describe_stack_resource e region stack_name (''ALB'' @ stack_name) = Inr physical_resource_id \<and>
            describe_load_balancers e ''us-west-2'' [physical_resource_id] = Inr (ALB_dns_name # others) \<and>
            calls st' = before @
              [Client ''cloudformation'' region (WaiterWait waiter stack_name waiter_conf),
               Client ''cloudformation'' region (DescribeStackResource stack_name (''ALB'' @ stack_name)),
               Client ''elbv2'' ''us-west-2'' (DescribeLoadBalancers [physical_resource_id])] \<and>
            last (stdout st') = [Text ''The DNS name of your ALB is '', Text ALB_dns_name, Text ''.''])"
proof -
  from apply_template_success [OF assms]
  obtain submitted waiter waiter_conf stack_id stacks physical_resource_id ALB_dns_name others where
    r: "result = None" and
    w: "waiter_wait e region waiter stack_name waiter_conf = Inr ()" and
    p: "describe_stack_resource e region stack_name (''ALB'' @ stack_name) = Inr physical_resource_id" and
    d: "describe_load_balancers e ''us-west-2'' [physical_resource_id] = Inr (ALB_dns_name # others)" and
    c: "calls st' = calls st @ map (Client ''cloudformation'' region)
              (submitted @
               [DescribeStacks stack_name,
                WaiterWait waiter stack_name waiter_conf,
                DescribeStackResource stack_name (''ALB'' @ stack_name)]) @
              [Client ''elbv2'' ''us-west-2'' (DescribeLoadBalancers [physical_resource_id])]" and
    out: "stdout st' = stdout st @
              [[Text ''Applying the cloudformation template ...\<newline>''],
               [Text ''View your stack at '',
                Text (''https://'' @ region @ ''.console.aws.amazon.com/cloudformation/home?region=''
                        @ region @ ''#stacks/stackinfo?stackId='' @ stack_id),
                Text ''.\<newline>''],
               [Text ''Finished deploying the cloudformation template.\<newline>''],
               [Text ''The DNS name of your ALB is '', Text ALB_dns_name, Text ''.'']]"
    by blast
  have c': "calls st' = (calls st @ map (Client ''cloudformation'' region) submitted @
                [Client ''cloudformation'' region (DescribeStacks stack_name)]) @
              [Client ''cloudformation'' region (WaiterWait waiter stack_name waiter_conf),
               Client ''cloudformation'' region (DescribeStackResource stack_name (''ALB'' @ stack_name)),
               Client ''elbv2'' ''us-west-2'' (DescribeLoadBalancers [physical_resource_id])]"
    using c by simp
  have l: "last (stdout st') = [Text ''The DNS name of your ALB is '', Text ALB_dns_name, Text ''.'']"
    using out by simp
  show ?thesis
    by (intro exI conjI) (rule r w p d c' l)+
qed

theorem apply_prints_address_witness:
  "apply_template demo_env ''us-east-1'' ''demo'' ''{}'' [] init =
     (Inr None, snd (apply_template demo_env ''us-east-1'' ''demo'' ''{}'' [] init)) \<and>
   (\<exists>before waiter waiter_conf physical_resource_id ALB_dns_name others.
            waiter_wait demo_env ''us-east-1'' waiter ''demo'' waiter_conf = Inr () \<and>
            describe_stack_resource demo_env ''us-east-1'' ''demo'' (''ALB'' @ ''demo'') = Inr physical_resource_id \<and>
            describe_load_balancers demo_env ''us-west-2'' [physical_resource_id] = Inr (ALB_dns_name # others) \<and>
            calls (snd (apply_template demo_env ''us-east-1'' ''demo'' ''{}'' [] init)) = before @
              [Client ''cloudformation'' ''us-east-1'' (WaiterWait waiter ''demo'' waiter_conf),
               Client ''cloudformation'' ''us-east-1'' (DescribeStackResource ''demo'' (''ALB'' @ ''demo'')),
               Client ''elbv2'' ''us-west-2'' (DescribeLoadBalancers [physical_resource_id])] \<and>
            last (stdout (snd (apply_template demo_env ''us-east-1'' ''demo'' ''{}'' [] init))) =
              [Text ''The DNS name of your ALB is '', Text ALB_dns_name, Text ''.''])"
proof -
  have h: "apply_template demo_env ''us-east-1'' ''demo'' ''{}'' [] init =
     (Inr None, snd (apply_template demo_env ''us-east-1'' ''demo'' ''{}'' [] init))"
    by (simp add: demo_apply)
  from apply_prints_address [OF h] have
    "\<exists>before waiter waiter_conf physical_resource_id ALB_dns_name others.
            waiter_wait demo_env ''us-east-1'' waiter ''demo'' waiter_conf = Inr () \<and>
            describe_stack_resource demo_env ''us-east-1'' ''demo'' (''ALB'' @ ''demo'') = Inr physical_resource_id \<and>
            describe_load_balancers demo_env ''us-west-2'' [physical_resource_id] = Inr (ALB_dns_name # others) \<and>
            calls (snd (apply_template demo_env ''us-east-1'' ''demo'' ''{}'' [] init)) = before @
              [Client ''cloudformation'' ''us-east-1'' (WaiterWait waiter ''demo'' waiter_conf),
               Client ''cloudformation'' ''us-east-1'' (DescribeStackResource ''demo'' (''ALB'' @ ''demo'')),
               Client ''elbv2'' ''us-west-2'' (DescribeLoadBalancers [physical_resource_id])] \<and>
            last (stdout (snd (apply_template demo_env ''us-east-1'' ''demo'' ''{}'' [] init))) =
              [Text ''The DNS name of your ALB is '', Text ALB_dns_name, Text ''.'']"
    by (rule conjunct2)
  with h show ?thesis by (rule conjI)
qed

text \<open>
  C9. In every successful run of \<open>apply\<close>, whatever its \<open>region\<close> argument, the calls
  issued are calls on the \<open>cloudformation\<close> client of that region, none of them a load
  balancer query, followed by exactly one call on the \<open>elbv2\<close> client of the fixed region
  \<open>us-west-2\<close>: the query for the physical id that the stack resource lookup returned.
\<close>

theorem apply_dns_region:
  assumes "apply_template e region stack_name cf_template_json parameters st = (Inr result, st')"
  shows "\<exists>requests physical_resource_id.
           calls st' = calls st @ map (Client ''cloudformation'' region) requests @
             [Client ''elbv2'' ''us-west-2'' (DescribeLoadBalancers [physical_resource_id])] \<and>
           (\<forall>arns. DescribeLoadBalancers arns \<notin> set requests) \<and>
           describe_stack_resource e region stack_name (''ALB'' @ stack_name) = Inr physical_resource_id"
proof -
  from apply_template_success [OF assms]
  obtain submitted waiter waiter_conf physical_resource_id where
    s: "submitted = [CreateStack stack_name cf_template_json parameters] \<or>
        submitted = [CreateStack stack_name cf_template_json parameters,
                     UpdateStack stack_name cf_template_json parameters]" and
    p: "describe_stack_resource e region stack_name (''ALB'' @ stack_name) = Inr physical_resource_id" and
    c: "calls st' = calls st @ map (Client ''cloudformation'' region)
              (submitted @
               [DescribeStacks stack_name,
                WaiterWait waiter stack_name waiter_conf,
                DescribeStackResource stack_name (''ALB'' @ stack_name)]) @
              [Client ''elbv2'' ''us-west-2'' (DescribeLoadBalancers [physical_resource_id])]"
    by blast
  have n: "\<forall>arns. DescribeLoadBalancers arns \<notin> set (submitted @
               [DescribeStacks stack_name,
                WaiterWait waiter stack_name waiter_conf,
                DescribeStackResource stack_name (''ALB'' @ stack_name)])"
    using s by auto
  show ?thesis
    by (intro exI conjI) (rule c n p)+
qed

theorem apply_dns_region_witness:
  "apply_template demo_env ''us-east-1'' ''demo'' ''{}'' [] init =
     (Inr None, snd (apply_template demo_env ''us-east-1'' ''demo'' ''{}'' [] init)) \<and>
   ''us-east-1'' \<noteq> ''us-west-2'' \<and>
   (\<exists>requests physical_resource_id.
           calls (snd (apply_template demo_env ''us-east-1'' ''demo'' ''{}'' [] init)) =
             calls init @ map (Client ''cloudformation'' ''us-east-1'') requests @
             [Client ''elbv2'' ''us-west-2'' (DescribeLoadBalancers [physical_resource_id])] \<and>
           (\<forall>arns. DescribeLoadBalancers arns \<notin> set requests) \<and>
           describe_stack_resource demo_env ''us-east-1'' ''demo'' (''ALB'' @ ''demo'') = Inr physical_resource_id)"
proof -
  have h: "apply_template demo_env ''us-east-1'' ''demo'' ''{}'' [] init =
     (Inr None, snd (apply_template demo_env ''us-east-1'' ''demo'' ''{}'' [] init))"
    by (simp add: demo_apply)
  have ne: "''us-east-1'' \<noteq> ''us-west-2''" by simp
  show ?thesis
    using h ne apply_dns_region [OF h]
    by (intro conjI) assumption+
qed

text \<open>
  The create path waits with the empty configuration and the update path with
  \<open>Delay = 2\<close>. With a waiter whose default delay is 30 seconds, the update path waits
  2 seconds between polls and the create path 30: the update path's delay is the shorter.
\<close>

theorem apply_update_delay_counterexample:
  "calls (snd (apply_template demo_env ''us-east-1'' ''demo'' ''{}'' [] init)) =
     [Client ''cloudformation'' ''us-east-1'' (CreateStack ''demo'' ''{}'' []),
      Client ''cloudformation'' ''us-east-1'' (DescribeStacks ''demo''),
      Client ''cloudformation'' ''us-east-1'' (WaiterWait ''stack_create_complete'' ''demo'' []),
      Client ''cloudformation'' ''us-east-1'' (DescribeStackResource ''demo'' ''ALBdemo''),
      Client ''elbv2'' ''us-west-2'' (DescribeLoadBalancers [''arn:alb/ALBdemo''])] \<and>
   calls (snd (apply_template other_env ''us-east-1'' ''demo'' ''{}'' [] init)) =
     [Client ''cloudformation'' ''us-east-1'' (CreateStack ''demo'' ''{}'' []),
      Client ''cloudformation'' ''us-east-1'' (UpdateStack ''demo'' ''{}'' []),
      Client ''cloudformation'' ''us-east-1'' (DescribeStacks ''demo''),
      Client ''cloudformation'' ''us-east-1'' (WaiterWait ''stack_update_complete'' ''demo'' [(''Delay'', 2)]),
      Client ''cloudformation'' ''us-east-1'' (DescribeStackResource ''demo'' ''ALBdemo''),
      Client ''elbv2'' ''us-west-2'' (DescribeLoadBalancers [''arn:alb/ALBdemo''])] \<and>
   delay 30 [(''Delay'', 2)] = 2 \<and>
   delay 30 [] = 30 \<and>
   \<not> delay 30 [] < delay 30 [(''Delay'', 2)]"
  by (simp add: demo_apply other_apply delay_def)

lemma apply_wait_trace:
  "\<exists>after.
     calls (snd (apply_wait e region stack_name waiter waiter_conf st)) =
       calls st @ [Client ''cloudformation'' region (DescribeStacks stack_name)] @
       (if \<exists>stack_id stacks. describe_stacks e region stack_name = Inr (stack_id # stacks)
        then [Client ''cloudformation'' region (WaiterWait waiter stack_name waiter_conf)] else []) @
       after \<and>
     (\<forall>service r w n c. Client service r (WaiterWait w n c) \<notin> set after)"
  by (auto simp: apply_wait_def Let_def emit_def print_def split: sum.splits list.splits)

text \<open>
  C3, amended. Every run of \<open>apply\<close>, successful or not, waits at most once, and it
  waits exactly when the stack was submitted and \<open>describe_stacks\<close> then answered with a
  stack. On the create path the wait is on \<open>stack_create_complete\<close> with the empty
  configuration, whose delay is the waiter's default; on the update path it is on
  \<open>stack_update_complete\<close> with \<open>Delay = 2\<close>, whose delay is 2 whatever the default. The
  update path's delay is the longer one exactly when the waiter's default delay is
  below 2.
\<close>

theorem apply_wait_configuration:
  "\<exists>before waits after.
     calls (snd (apply_template e region stack_name cf_template_json parameters st)) =
       calls st @ before @ waits @ after \<and>
     (\<forall>service r w n c. Client service r (WaiterWait w n c) \<notin> set before \<and>
                         Client service r (WaiterWait w n c) \<notin> set after) \<and>
     waits =
       (if \<exists>stack_id stacks. describe_stacks e region stack_name = Inr (stack_id # stacks)
        then if create_stack e region stack_name cf_template_json parameters = Inr ()
             then [Client ''cloudformation'' region
                     (WaiterWait ''stack_create_complete'' stack_name [])]
             else if create_stack e region stack_name cf_template_json parameters =
                       Inl AlreadyExistsException \<and>
                     update_stack e region stack_name cf_template_json parameters = Inr ()
             then [Client ''cloudformation'' region
                     (WaiterWait ''stack_update_complete'' stack_name [(''Delay'', 2)])]
             else []
        else []) \<and>
     (\<forall>default_delay. delay default_delay [] = default_delay) \<and>
     (\<forall>default_delay. delay default_delay [(''Delay'', 2)] = 2) \<and>
     (\<forall>default_delay.
        (delay default_delay [] < delay default_delay [(''Delay'', 2)]) = (default_delay < 2))"
proof -
  let ?st1 = "emit (Client ''cloudformation'' region (CreateStack stack_name cf_template_json parameters))
               (print [Text ''Applying the cloudformation template ...\<newline>''] st)"
  let ?st2 = "emit (Client ''cloudformation'' region (UpdateStack stack_name cf_template_json parameters)) ?st1"
  let ?create = "Client ''cloudformation'' region (CreateStack stack_name cf_template_json parameters)"
  let ?update = "Client ''cloudformation'' region (UpdateStack stack_name cf_template_json parameters)"
  let ?describe = "Client ''cloudformation'' region (DescribeStacks stack_name)"
  let ?found = "\<exists>stack_id stacks. describe_stacks e region stack_name = Inr (stack_id # stacks)"
  have d: "(\<forall>default_delay. delay default_delay [] = default_delay) \<and>
     (\<forall>default_delay. delay default_delay [(''Delay'', 2)] = 2) \<and>
     (\<forall>default_delay.
        (delay default_delay [] < delay default_delay [(''Delay'', 2)]) = (default_delay < 2))"
    by (simp add: delay_def)
  have c1: "calls ?st1 = calls st @ [?create]" and c2: "calls ?st2 = calls st @ [?create, ?update]"
    by (simp_all add: emit_def print_def)
  show ?thesis
  proof (cases "create_stack e region stack_name cf_template_json parameters")
    case (Inr u)
    have a: "apply_template e region stack_name cf_template_json parameters st =
               apply_wait e region stack_name ''stack_create_complete'' [] ?st1"
      using Inr by (simp add: apply_template_def Let_def)
    from apply_wait_trace [of e region stack_name "''stack_create_complete''" "[]" ?st1]
    obtain after where
      t: "calls (snd (apply_wait e region stack_name ''stack_create_complete'' [] ?st1)) =
            calls ?st1 @ [?describe] @
            (if ?found then [Client ''cloudformation'' region
                               (WaiterWait ''stack_create_complete'' stack_name [])] else []) @ after" and
      n: "\<forall>service r w n c. Client service r (WaiterWait w n c) \<notin> set after"
      by blast
    show ?thesis
      apply (rule exI [of _ "[?create, ?describe]"])
      apply (rule exI [of _ "if ?found then [Client ''cloudformation'' region
                               (WaiterWait ''stack_create_complete'' stack_name [])] else []"])
      apply (rule exI [of _ after])
      using Inr a t n d c1 by simp
  next
    case (Inl err0)
    show ?thesis
    proof (cases "err0 = AlreadyExistsException")
      case False
      then have a: "apply_template e region stack_name cf_template_json parameters st = (Inl err0, ?st1)"
        using Inl by (cases err0) (simp_all add: apply_template_def Let_def)
      show ?thesis
        apply (rule exI [of _ "[?create]"])
        apply (rule exI [of _ "[]"])
        apply (rule exI [of _ "[]"])
        using Inl False a d c1 by simp
    next
      case True
      have a: "apply_template e region stack_name cf_template_json parameters st =
               (case update_stack e region stack_name cf_template_json parameters of
                  Inl err \<Rightarrow> (Inl err, ?st2)
                | Inr u \<Rightarrow> apply_wait e region stack_name ''stack_update_complete'' [(''Delay'', 2)] ?st2)"
        using Inl True by (simp add: apply_template_def Let_def)
      show ?thesis
      proof (cases "update_stack e region stack_name cf_template_json parameters")
        case (Inl err1)
        show ?thesis
          apply (rule exI [of _ "[?create, ?update]"])
          apply (rule exI [of _ "[]"])
          apply (rule exI [of _ "[]"])
          using \<open>create_stack e region stack_name cf_template_json parameters = Inl err0\<close>
            True a Inl d c2 by simp
      next
        case (Inr u)
        from apply_wait_trace [of e region stack_name "''stack_update_complete''" "[(''Delay'', 2)]" ?st2]
        obtain after where
          t: "calls (snd (apply_wait e region stack_name ''stack_update_complete'' [(''Delay'', 2)] ?st2)) =
                calls ?st2 @ [?describe] @
                (if ?found then [Client ''cloudformation'' region
                                   (WaiterWait ''stack_update_complete'' stack_name [(''Delay'', 2)])] else []) @ after" and
          n: "\<forall>service r w n c. Client service r (WaiterWait w n c) \<notin> set after"
          by blast
        show ?thesis
          apply (rule exI [of _ "[?create, ?update, ?describe]"])
          apply (rule exI [of _ "if ?found then [Client ''cloudformation'' region
                                   (WaiterWait ''stack_update_complete'' stack_name [(''Delay'', 2)])] else []"])
          apply (rule exI [of _ after])
          using \<open>create_stack e region stack_name cf_template_json parameters = Inl err0\<close>
            True a Inr t n d c2 by simp
      qed
    qed
  qed
qed

lemma lookup_fails_apply:
  "fst (apply_template lookup_fails_env ''us-east-1'' ''demo'' ''{}'' [] init) =
     Inl (ClientError ''LoadBalancerNotFound'')"
  by (simp add: apply_template_def apply_wait_def lookup_fails_env_def demo_env_def init_def
      emit_def print_def Let_def)

theorem apply_wait_configuration_witness:
  "fst (apply_template lookup_fails_env ''us-east-1'' ''demo'' ''{}'' [] init) =
     Inl (ClientError ''LoadBalancerNotFound'') \<and>
   (\<exists>before after.
      calls (snd (apply_template lookup_fails_env ''us-east-1'' ''demo'' ''{}'' [] init)) =
        calls init @ before @
        [Client ''cloudformation'' ''us-east-1'' (WaiterWait ''stack_create_complete'' ''demo'' [])] @
        after \<and>
      (\<forall>service r w n c. Client service r (WaiterWait w n c) \<notin> set before \<and>
                          Client service r (WaiterWait w n c) \<notin> set after)) \<and>
   fst (apply_template other_env ''us-east-1'' ''demo'' ''{}'' [] init) = Inr None \<and>
   (\<exists>before after.
      calls (snd (apply_template other_env ''us-east-1'' ''demo'' ''{}'' [] init)) =
        calls init @ before @
        [Client ''cloudformation'' ''us-east-1''
           (WaiterWait ''stack_update_complete'' ''demo'' [(''Delay'', 2)])] @
        after \<and>
      (\<forall>service r w n c. Client service r (WaiterWait w n c) \<notin> set before \<and>
                          Client service r (WaiterWait w n c) \<notin> set after)) \<and>
   delay 30 [] = 30 \<and> delay 30 [(''Delay'', 2)] = 2"
proof -
  have f1: "\<exists>stack_id stacks. describe_stacks lookup_fails_env ''us-east-1'' ''demo'' = Inr (stack_id # stacks)"
    and k1: "create_stack lookup_fails_env ''us-east-1'' ''demo'' ''{}'' [] = Inr ()"
    by (simp_all add: lookup_fails_env_def demo_env_def)
  have f2: "\<exists>stack_id stacks. describe_stacks other_env ''us-east-1'' ''demo'' = Inr (stack_id # stacks)"
    and k2: "create_stack other_env ''us-east-1'' ''demo'' ''{}'' [] = Inl AlreadyExistsException"
    and u2: "update_stack other_env ''us-east-1'' ''demo'' ''{}'' [] = Inr ()"
    by (simp_all add: other_env_def demo_env_def)
  from apply_wait_configuration [of lookup_fails_env "''us-east-1''" "''demo''" "''{}''" "[]" init]
  obtain before1 waits1 after1 where
    c1: "calls (snd (apply_template lookup_fails_env ''us-east-1'' ''demo'' ''{}'' [] init)) =
           calls init @ before1 @ waits1 @ after1" and
    n1: "\<forall>service r w n c. Client service r (WaiterWait w n c) \<notin> set before1 \<and>
                          Client service r (WaiterWait w n c) \<notin> set after1" and
    w1: "waits1 =
       (if \<exists>stack_id stacks. describe_stacks lookup_fails_env ''us-east-1'' ''demo'' = Inr (stack_id # stacks)
        then if create_stack lookup_fails_env ''us-east-1'' ''demo'' ''{}'' [] = Inr ()
             then [Client ''cloudformation'' ''us-east-1''
                     (WaiterWait ''stack_create_complete'' ''demo'' [])]
             else if create_stack lookup_fails_env ''us-east-1'' ''demo'' ''{}'' [] =
                       Inl AlreadyExistsException \<and>
                     update_stack lookup_fails_env ''us-east-1'' ''demo'' ''{}'' [] = Inr ()
             then [Client ''cloudformation'' ''us-east-1''
                     (WaiterWait ''stack_update_complete'' ''demo'' [(''Delay'', 2)])]
             else []
        else [])"
    by blast
  from w1 f1 k1 have w1': "waits1 = [Client ''cloudformation'' ''us-east-1''
                     (WaiterWait ''stack_create_complete'' ''demo'' [])]"
    by simp
  have p1: "\<exists>before after.
      calls (snd (apply_template lookup_fails_env ''us-east-1'' ''demo'' ''{}'' [] init)) =
        calls init @ before @
        [Client ''cloudformation'' ''us-east-1'' (WaiterWait ''stack_create_complete'' ''demo'' [])] @
        after \<and>
      (\<forall>service r w n c. Client service r (WaiterWait w n c) \<notin> set before \<and>
                          Client service r (WaiterWait w n c) \<notin> set after)"
    by (intro exI conjI) (rule c1 [unfolded w1'] n1)+
  from apply_wait_configuration [of other_env "''us-east-1''" "''demo''" "''{}''" "[]" init]
  obtain before2 waits2 after2 where
    c2: "calls (snd (apply_template other_env ''us-east-1'' ''demo'' ''{}'' [] init)) =
           calls init @ before2 @ waits2 @ after2" and
    n2: "\<forall>service r w n c. Client service r (WaiterWait w n c) \<notin> set before2 \<and>
                          Client service r (WaiterWait w n c) \<notin> set after2" and
    w2: "waits2 =
       (if \<exists>stack_id stacks. describe_stacks other_env ''us-east-1'' ''demo'' = Inr (stack_id # stacks)
        then if create_stack other_env ''us-east-1'' ''demo'' ''{}'' [] = Inr ()
             then [Client ''cloudformation'' ''us-east-1''
                     (WaiterWait ''stack_create_complete'' ''demo'' [])]
             else if create_stack other_env ''us-east-1'' ''demo'' ''{}'' [] =
                       Inl AlreadyExistsException \<and>
                     update_stack other_env ''us-east-1'' ''demo'' ''{}'' [] = Inr ()
             then [Client ''cloudformation'' ''us-east-1''
                     (WaiterWait ''stack_update_complete'' ''demo'' [(''Delay'', 2)])]
             else []
        else [])"
    by blast
  from w2 f2 k2 u2 have w2': "waits2 = [Client ''cloudformation'' ''us-east-1''
                     (WaiterWait ''stack_update_complete'' ''demo'' [(''Delay'', 2)])]"
    by simp
  have p2: "\<exists>before after.
      calls (snd (apply_template other_env ''us-east-1'' ''demo'' ''{}'' [] init)) =
        calls init @ before @
        [Client ''cloudformation'' ''us-east-1''
           (WaiterWait ''stack_update_complete'' ''demo'' [(''Delay'', 2)])] @
        after \<and>
      (\<forall>service r w n c. Client service r (WaiterWait w n c) \<notin> set before \<and>
                          Client service r (WaiterWait w n c) \<notin> set after)"
    by (intro exI conjI) (rule c2 [unfolded w2'] n2)+
  have r2: "fst (apply_template other_env ''us-east-1'' ''demo'' ''{}'' [] init) = Inr None"
    by (simp add: other_apply)
  have d: "delay 30 [] = 30" "delay 30 [(''Delay'', 2)] = 2"
    by (simp_all add: delay_def)
  show ?thesis
    using lookup_fails_apply p1 r2 p2 d by (intro conjI) assumption+
qed

lemma apply_wait_calls:
  "\<exists>rest. calls (snd (apply_wait e region stack_name waiter waiter_conf st)) =
           calls st @ Client ''cloudformation'' region (DescribeStacks stack_name) # rest \<and>
         (\<forall>service r n b q. Client service r (UpdateStack n b q) \<notin> set rest)"
  by (auto simp: apply_wait_def Let_def emit_def print_def split: sum.splits list.splits)

lemma apply_wait_Inl:
  assumes "fst (apply_wait e region stack_name waiter waiter_conf st) = Inl err"
  shows "describe_stacks e region stack_name = Inl err \<or>
         describe_stacks e region stack_name = Inr [] \<and> err = IndexError \<or>
         waiter_wait e region waiter stack_name waiter_conf = Inl err \<or>
         describe_stack_resource e region stack_name (''ALB'' @ stack_name) = Inl err \<or>
         (\<exists>physical_resource_id.
            describe_stack_resource e region stack_name (''ALB'' @ stack_name) = Inr physical_resource_id \<and>
            (describe_load_balancers e ''us-west-2'' [physical_resource_id] = Inl err \<or>
             describe_load_balancers e ''us-west-2'' [physical_resource_id] = Inr [] \<and> err = IndexError))"
  using assms
  by (auto simp: apply_wait_def Let_def split: sum.splits list.splits)

text \<open>
  C5. The first call of every run of \<open>apply\<close> is the creation of the stack. The next
  call is the update of the same stack with the same template and parameters exactly when
  the creation answered \<open>AlreadyExistsException\<close>, and no update is issued otherwise.
  After that answer, an error of \<open>apply\<close> is the error of a call issued after the
  creation (or the \<open>IndexError\<close> of an empty answer), never the creation's.
\<close>

theorem apply_create_then_update:
  "\<exists>rest.
     calls (snd (apply_template e region stack_name cf_template_json parameters st)) =
       calls st @ Client ''cloudformation'' region (CreateStack stack_name cf_template_json parameters) # rest \<and>
     ((create_stack e region stack_name cf_template_json parameters = Inl AlreadyExistsException) =
      (\<exists>rest'. rest = Client ''cloudformation'' region
                          (UpdateStack stack_name cf_template_json parameters) # rest')) \<and>
     (\<forall>service r n b q. Client service r (UpdateStack n b q) \<in> set rest \<longrightarrow>
        create_stack e region stack_name cf_template_json parameters = Inl AlreadyExistsException) \<and>
     (create_stack e region stack_name cf_template_json parameters = Inl AlreadyExistsException \<longrightarrow>
        (\<forall>err. fst (apply_template e region stack_name cf_template_json parameters st) = Inl err \<longrightarrow>
           update_stack e region stack_name cf_template_json parameters = Inl err \<or>
           describe_stacks e region stack_name = Inl err \<or>
           describe_stacks e region stack_name = Inr [] \<and> err = IndexError \<or>
           waiter_wait e region ''stack_update_complete'' stack_name [(''Delay'', 2)] = Inl err \<or>
           describe_stack_resource e region stack_name (''ALB'' @ stack_name) = Inl err \<or>
           (\<exists>physical_resource_id.
              describe_stack_resource e region stack_name (''ALB'' @ stack_name) = Inr physical_resource_id \<and>
              (describe_load_balancers e ''us-west-2'' [physical_resource_id] = Inl err \<or>
               describe_load_balancers e ''us-west-2'' [physical_resource_id] = Inr [] \<and> err = IndexError))))"
proof (cases "create_stack e region stack_name cf_template_json parameters")
  case (Inr u)
  let ?st1 = "emit (Client ''cloudformation'' region (CreateStack stack_name cf_template_json parameters))
               (print [Text ''Applying the cloudformation template ...\<newline>''] st)"
  have a: "apply_template e region stack_name cf_template_json parameters st =
             apply_wait e region stack_name ''stack_create_complete'' [] ?st1"
    using Inr by (simp add: apply_template_def Let_def)
  from apply_wait_calls [of e region stack_name "''stack_create_complete''" "[]" ?st1]
  obtain rest where
    c: "calls (snd (apply_wait e region stack_name ''stack_create_complete'' [] ?st1)) =
          calls ?st1 @ Client ''cloudformation'' region (DescribeStacks stack_name) # rest" and
    n: "\<forall>service r n b q. Client service r (UpdateStack n b q) \<notin> set rest"
    by blast
  show ?thesis
    apply (rule exI [of _ "Client ''cloudformation'' region (DescribeStacks stack_name) # rest"])
    using Inr a c n by (simp add: emit_def print_def)
next
  case (Inl err0)
  show ?thesis
  proof (cases "err0 = AlreadyExistsException")
    case False
    then have a: "apply_template e region stack_name cf_template_json parameters st =
             (Inl err0, emit (Client ''cloudformation'' region (CreateStack stack_name cf_template_json parameters))
               (print [Text ''Applying the cloudformation template ...\<newline>''] st))"
      using Inl by (cases err0) (simp_all add: apply_template_def Let_def)
    show ?thesis
      apply (rule exI [of _ "[]"])
      using Inl False a by (simp add: emit_def print_def)
  next
    case True
    let ?st2 = "emit (Client ''cloudformation'' region (UpdateStack stack_name cf_template_json parameters))
                 (emit (Client ''cloudformation'' region (CreateStack stack_name cf_template_json parameters))
                   (print [Text ''Applying the cloudformation template ...\<newline>''] st))"
    have a: "apply_template e region stack_name cf_template_json parameters st =
               (case update_stack e region stack_name cf_template_json parameters of
                  Inl err \<Rightarrow> (Inl err, ?st2)
                | Inr u \<Rightarrow> apply_wait e region stack_name ''stack_update_complete'' [(''Delay'', 2)] ?st2)"
      using Inl True by (simp add: apply_template_def Let_def)
    from apply_wait_calls [of e region stack_name "''stack_update_complete''" "[(''Delay'', 2)]" ?st2]
    obtain rest where
      c: "calls (snd (apply_wait e region stack_name ''stack_update_complete'' [(''Delay'', 2)] ?st2)) =
            calls ?st2 @ Client ''cloudformation'' region (DescribeStacks stack_name) # rest"
      by blast
    show ?thesis
    proof (cases "update_stack e region stack_name cf_template_json parameters")
      case (Inl err1)
      show ?thesis
        apply (rule exI [of _ "[Client ''cloudformation'' region
                          (UpdateStack stack_name cf_template_json parameters)]"])
        using \<open>create_stack e region stack_name cf_template_json parameters = Inl err0\<close> True a Inl
        by (simp add: emit_def print_def)
    next
      case (Inr u)
      have p: "\<forall>err. fst (apply_template e region stack_name cf_template_json parameters st) = Inl err \<longrightarrow>
           update_stack e region stack_name cf_template_json parameters = Inl err \<or>
           describe_stacks e region stack_name = Inl err \<or>
           describe_stacks e region stack_name = Inr [] \<and> err = IndexError \<or>
           waiter_wait e region ''stack_update_complete'' stack_name [(''Delay'', 2)] = Inl err \<or>
           describe_stack_resource e region stack_name (''ALB'' @ stack_name) = Inl err \<or>
           (\<exists>physical_resource_id.
              describe_stack_resource e region stack_name (''ALB'' @ stack_name) = Inr physical_resource_id \<and>
              (describe_load_balancers e ''us-west-2'' [physical_resource_id] = Inl err \<or>
               describe_load_balancers e ''us-west-2'' [physical_resource_id] = Inr [] \<and> err = IndexError))"
        using a Inr apply_wait_Inl [of e region stack_name "''stack_update_complete''" "[(''Delay'', 2)]" ?st2]
        by auto
      show ?thesis
        apply (rule exI [of _ "Client ''cloudformation'' region
                          (UpdateStack stack_name cf_template_json parameters) #
                        Client ''cloudformation'' region (DescribeStacks stack_name) # rest"])
        using \<open>create_stack e region stack_name cf_template_json parameters = Inl err0\<close> True a Inr c p
        by (simp add: emit_def print_def)
    qed
  qed
qed

theorem apply_create_then_update_witness:
  "create_stack other_env ''us-east-1'' ''demo'' ''{}'' [] = Inl AlreadyExistsException \<and>
   (\<exists>rest'. calls (snd (apply_template other_env ''us-east-1'' ''demo'' ''{}'' [] init)) =
       calls init @ Client ''cloudformation'' ''us-east-1'' (CreateStack ''demo'' ''{}'' []) #
         Client ''cloudformation'' ''us-east-1'' (UpdateStack ''demo'' ''{}'' []) # rest') \<and>
   fst (apply_template other_env ''us-east-1'' ''demo'' ''{}'' [] init) = Inr None \<and>
   create_stack demo_env ''us-east-1'' ''demo'' ''{}'' [] = Inr () \<and>
   (\<forall>service r n b q. Client service r (UpdateStack n b q) \<notin>
      set (calls (snd (apply_template demo_env ''us-east-1'' ''demo'' ''{}'' [] init))))"
proof -
  have h: "create_stack other_env ''us-east-1'' ''demo'' ''{}'' [] = Inl AlreadyExistsException"
    by (simp add: other_env_def)
  from apply_create_then_update [of other_env "''us-east-1''" "''demo''" "''{}''" "[]" init]
  obtain rest where
    c: "calls (snd (apply_template other_env ''us-east-1'' ''demo'' ''{}'' [] init)) =
          calls init @ Client ''cloudformation'' ''us-east-1'' (CreateStack ''demo'' ''{}'' []) # rest" and
    u: "(create_stack other_env ''us-east-1'' ''demo'' ''{}'' [] = Inl AlreadyExistsException) =
        (\<exists>rest'. rest = Client ''cloudformation'' ''us-east-1'' (UpdateStack ''demo'' ''{}'' []) # rest')"
    by blast
  from u h obtain rest' where
    "rest = Client ''cloudformation'' ''us-east-1'' (UpdateStack ''demo'' ''{}'' []) # rest'"
    by blast
  with c have p1: "\<exists>rest'. calls (snd (apply_template other_env ''us-east-1'' ''demo'' ''{}'' [] init)) =
       calls init @ Client ''cloudformation'' ''us-east-1'' (CreateStack ''demo'' ''{}'' []) #
         Client ''cloudformation'' ''us-east-1'' (UpdateStack ''demo'' ''{}'' []) # rest'"
    by blast
  have p2: "fst (apply_template other_env ''us-east-1'' ''demo'' ''{}'' [] init) = Inr None"
    by (simp add: other_apply)
  have p3: "create_stack demo_env ''us-east-1'' ''demo'' ''{}'' [] = Inr ()"
    by (simp add: demo_env_def)
  have p4: "\<forall>service r n b q. Client service r (UpdateStack n b q) \<notin>
      set (calls (snd (apply_template demo_env ''us-east-1'' ''demo'' ''{}'' [] init)))"
    by (simp add: demo_apply)
  show ?thesis
    using h p1 p2 p3 p4 by (intro conjI) assumption+
qed

lemma waiter_loop_does_not_exist:
  assumes "responses 0 = Inl (ClientError ''ValidationError'')"
  shows "waiter_loop (stack_delete_complete failures) attempts_left responses 0 = Inr ()"
  using assms by (simp add: stack_delete_complete_def)

text \<open>
  A stack that does not exist: the control plane accepts the deletion and answers every
  poll of the waiter with \<open>ValidationError\<close>, which is a success state of
  \<open>stack_delete_complete\<close>. \<open>delete\<close> returns normally and prints that the stack was
  deleted; the caller sees no error.
\<close>

theorem delete_absent_stack_counterexample:
  "delete_stack gone_env ''us-east-1'' ''gone'' = Inr () \<and>
   gone_responses 0 = Inl (ClientError ''ValidationError'') \<and>
   waiter_wait gone_env ''us-east-1'' ''stack_delete_complete'' ''gone'' [(''Delay'', 1)] =
     waiter_loop (stack_delete_complete [''DELETE_FAILED'']) 119 gone_responses 0 \<and>
   delete gone_env ''us-east-1'' ''gone'' init =
     (Inr (),
      \<lparr>calls = [Client ''cloudformation'' ''us-east-1'' (DeleteStack ''gone''),
                Client ''cloudformation'' ''us-east-1''
                  (WaiterWait ''stack_delete_complete'' ''gone'' [(''Delay'', 1)])],
       stdout = [[Text ''Deleting cloudformation stack '', Text ''gone'', Text '' ...''],
                 [Text ''Deleted cloudformation stack '', Text ''gone'', Text ''.'']]\<rparr>)"
  by (simp add: delete_def gone_env_def demo_env_def init_def emit_def print_def Let_def
      gone_responses_def stack_delete_complete_def)

text \<open>
  C8, amended. The first call of every run of \<open>delete\<close> is the deletion of the stack,
  with no call before it. An error of that call is the result of \<open>delete\<close> as it is, and
  nothing else is called. When the deletion is accepted, \<open>delete\<close> waits on
  \<open>stack_delete_complete\<close> with the fixed \<open>Delay = 1\<close>, and its result is the result of
  that wait. When the wait is the library's loop over the acceptors of
  \<open>stack_delete_complete\<close> and the control plane answers its first poll with
  \<open>ValidationError\<close>, the result is success and the last line printed says that the
  stack was deleted: this does-not-exist answer does not reach the caller.
\<close>

theorem delete_submits_then_waits:
  "(\<exists>rest. calls (snd (delete e region stack_name st)) =
             calls st @ Client ''cloudformation'' region (DeleteStack stack_name) # rest) \<and>
   (\<forall>err. delete_stack e region stack_name = Inl err \<longrightarrow>
      fst (delete e region stack_name st) = Inl err \<and>
      calls (snd (delete e region stack_name st)) =
        calls st @ [Client ''cloudformation'' region (DeleteStack stack_name)]) \<and>
   (delete_stack e region stack_name = Inr () \<longrightarrow>
      fst (delete e region stack_name st) =
        waiter_wait e region ''stack_delete_complete'' stack_name [(''Delay'', 1)] \<and>
      calls (snd (delete e region stack_name st)) =
        calls st @ [Client ''cloudformation'' region (DeleteStack stack_name),
                    Client ''cloudformation'' region
                      (WaiterWait ''stack_delete_complete'' stack_name [(''Delay'', 1)])]) \<and>
   (\<forall>failures attempts_left responses.
      delete_stack e region stack_name = Inr () \<and>
      waiter_wait e region ''stack_delete_complete'' stack_name [(''Delay'', 1)] =
        waiter_loop (stack_delete_complete failures) attempts_left responses 0 \<and>
      responses 0 = Inl (ClientError ''ValidationError'') \<longrightarrow>
      fst (delete e region stack_name st) = Inr () \<and>
      stdout (snd (delete e region stack_name st)) =
        stdout st @
        [[Text ''Deleting cloudformation stack '', Text stack_name, Text '' ...''],
         [Text ''Deleted cloudformation stack '', Text stack_name, Text ''.'']])"
proof (intro conjI allI impI)
  show "\<exists>rest. calls (snd (delete e region stack_name st)) =
             calls st @ Client ''cloudformation'' region (DeleteStack stack_name) # rest"
    by (auto simp: delete_def Let_def emit_def print_def split: sum.splits)
next
  fix err
  assume "delete_stack e region stack_name = Inl err"
  then show "fst (delete e region stack_name st) = Inl err"
    and "calls (snd (delete e region stack_name st)) =
        calls st @ [Client ''cloudformation'' region (DeleteStack stack_name)]"
    by (simp_all add: delete_def Let_def emit_def print_def)
next
  assume "delete_stack e region stack_name = Inr ()"
  then show "fst (delete e region stack_name st) =
        waiter_wait e region ''stack_delete_complete'' stack_name [(''Delay'', 1)]"
    and "calls (snd (delete e region stack_name st)) =
        calls st @ [Client ''cloudformation'' region (DeleteStack stack_name),
                    Client ''cloudformation'' region
                      (WaiterWait ''stack_delete_complete'' stack_name [(''Delay'', 1)])]"
    by (auto simp: delete_def Let_def emit_def print_def split: sum.splits)
next
  fix failures attempts_left responses
  assume a: "delete_stack e region stack_name = Inr () \<and>
      waiter_wait e region ''stack_delete_complete'' stack_name [(''Delay'', 1)] =
        waiter_loop (stack_delete_complete failures) attempts_left responses 0 \<and>
      responses 0 = Inl (ClientError ''ValidationError'')"
  then have w: "waiter_wait e region ''stack_delete_complete'' stack_name [(''Delay'', 1)] = Inr ()"
    using waiter_loop_does_not_exist [of responses failures attempts_left] by simp
  from a w show "fst (delete e region stack_name st) = Inr ()"
    and "stdout (snd (delete e region stack_name st)) =
        stdout st @
        [[Text ''Deleting cloudformation stack '', Text stack_name, Text '' ...''],
         [Text ''Deleted cloudformation stack '', Text stack_name, Text ''.'']]"
    by (simp_all add: delete_def Let_def emit_def print_def)
qed

theorem delete_submits_then_waits_witness:
  "delete_stack absent_env ''us-east-1'' ''gone'' = Inl (ClientError ''ValidationError'') \<and>
   fst (delete absent_env ''us-east-1'' ''gone'' init) = Inl (ClientError ''ValidationError'') \<and>
   calls (snd (delete absent_env ''us-east-1'' ''gone'' init)) =
     calls init @ [Client ''cloudformation'' ''us-east-1'' (DeleteStack ''gone'')] \<and>
   delete_stack demo_env ''us-east-1'' ''demo'' = Inr () \<and>
   fst (delete demo_env ''us-east-1'' ''demo'' init) =
     waiter_wait demo_env ''us-east-1'' ''stack_delete_complete'' ''demo'' [(''Delay'', 1)] \<and>
   calls (snd (delete demo_env ''us-east-1'' ''demo'' init)) =
     calls init @ [Client ''cloudformation'' ''us-east-1'' (DeleteStack ''demo''),
                   Client ''cloudformation'' ''us-east-1''
                     (WaiterWait ''stack_delete_complete'' ''demo'' [(''Delay'', 1)])] \<and>
   delete_stack gone_env ''us-east-1'' ''gone'' = Inr () \<and>
   waiter_wait gone_env ''us-east-1'' ''stack_delete_complete'' ''gone'' [(''Delay'', 1)] =
     waiter_loop (stack_delete_complete [''DELETE_FAILED'']) 119 gone_responses 0 \<and>
   gone_responses 0 = Inl (ClientError ''ValidationError'') \<and>
   fst (delete gone_env ''us-east-1'' ''gone'' init) = Inr () \<and>
   stdout (snd (delete gone_env ''us-east-1'' ''gone'' init)) =
     stdout init @
     [[Text ''Deleting cloudformation stack '', Text ''gone'', Text '' ...''],
      [Text ''Deleted cloudformation stack '', Text ''gone'', Text ''.'']]"
proof -
  have h1: "delete_stack absent_env ''us-east-1'' ''gone'' = Inl (ClientError ''ValidationError'')"
    by (simp add: absent_env_def)
  have h2: "delete_stack demo_env ''us-east-1'' ''demo'' = Inr ()"
    by (simp add: demo_env_def)
  have h3: "delete_stack gone_env ''us-east-1'' ''gone'' = Inr ()"
    and h4: "waiter_wait gone_env ''us-east-1'' ''stack_delete_complete'' ''gone'' [(''Delay'', 1)] =
      waiter_loop (stack_delete_complete [''DELETE_FAILED'']) 119 gone_responses 0"
    by (simp_all add: gone_env_def demo_env_def)
  have h5: "gone_responses 0 = Inl (ClientError ''ValidationError'')"
    by (simp add: gone_responses_def)
  note t1 = delete_submits_then_waits [of absent_env "''us-east-1''" "''gone''" init]
  note t2 = delete_submits_then_waits [of demo_env "''us-east-1''" "''demo''" init]
  note t3 = delete_submits_then_waits [of gone_env "''us-east-1''" "''gone''" init]
  from t1 h1 have a: "fst (delete absent_env ''us-east-1'' ''gone'' init) = Inl (ClientError ''ValidationError'')"
    "calls (snd (delete absent_env ''us-east-1'' ''gone'' init)) =
     calls init @ [Client ''cloudformation'' ''us-east-1'' (DeleteStack ''gone'')]"
    by blast+
  from t2 h2 have b: "fst (delete demo_env ''us-east-1'' ''demo'' init) =
     waiter_wait demo_env ''us-east-1'' ''stack_delete_complete'' ''demo'' [(''Delay'', 1)]"
    "calls (snd (delete demo_env ''us-east-1'' ''demo'' init)) =
     calls init @ [Client ''cloudformation'' ''us-east-1'' (DeleteStack ''demo''),
                   Client ''cloudformation'' ''us-east-1''
                     (WaiterWait ''stack_delete_complete'' ''demo'' [(''Delay'', 1)])]"
    by blast+
  from t3 h3 h4 h5 have c: "fst (delete gone_env ''us-east-1'' ''gone'' init) = Inr ()"
    "stdout (snd (delete gone_env ''us-east-1'' ''gone'' init)) =
     stdout init @
     [[Text ''Deleting cloudformation stack '', Text ''gone'', Text '' ...''],
      [Text ''Deleted cloudformation stack '', Text ''gone'', Text ''.'']]"
    by blast+
  show ?thesis
    using h1 a h2 b h3 h4 h5 c by (intro conjI) assumption+
qed

end
